theory Spec2Isabelle
  imports Main "HOL-Library.Word"
begin

unbundle bit_operations_syntax

section \<open>Python values, the bus and the clock\<close>

text \<open>
  The driver \<^verbatim>\<open>QwiicSerlcdU\<close> (file \<^verbatim>\<open>qwiic_serlcd_u.py\<close>) talks to three outside
  things: the injected \<^verbatim>\<open>i2c\<close> object (only its \<^verbatim>\<open>writeto\<close> is called), the clock
  \<^verbatim>\<open>utime.ticks_ms\<close> and \<^verbatim>\<open>utime.sleep\<close>. None of them is part of the repository, so
  they are modelled as an environment, the record \<open>world\<close>, that answers every call
  from a script the theorems quantify over.

  A method returns either normally with a Python value or by an exception that the
  driver never catches; the only exception considered is the one a failing
  \<^verbatim>\<open>writeto\<close> raises. The handle is mutated in place, so the handle and the world as
  they are at the moment of the return or of the raise are part of every result.
\<close>

datatype pyval = PyNone | PyBool bool | PyInt int

fun truthy :: "pyval \<Rightarrow> bool" where
  "truthy PyNone = False"
| "truthy (PyBool b) = b"
| "truthy (PyInt n) = (n \<noteq> 0)"

datatype oserror = OSError int

type_synonym outcome = "oserror + pyval"

text \<open>
  A write has failed when \<^verbatim>\<open>writeto\<close> raised, or when it returned a value that
  \<^verbatim>\<open>bool(result)\<close> (the reading \<^verbatim>\<open>begin\<close> makes of it) turns into \<^verbatim>\<open>False\<close>.
\<close>

fun failed :: "outcome \<Rightarrow> bool" where
  "failed (Inl e) = True"
| "failed (Inr v) = (\<not> truthy v)"

text \<open>
  What \<^verbatim>\<open>writeto\<close> is given: the \<^verbatim>\<open>bytearray\<close> built by \<^verbatim>\<open>send_commands\<close>, or the
  \<^verbatim>\<open>str\<close> that \<^verbatim>\<open>send_text\<close> passes as it is (a list of its characters).
\<close>

datatype payload = Bytes "8 word list" | Text string

record world =
  wire :: "(int \<times> payload) list"   \<comment> \<open>every \<^verbatim>\<open>writeto(address, buffer)\<close> call so far, oldest first\<close>
  replies :: "nat \<Rightarrow> outcome"        \<comment> \<open>how the k-th \<^verbatim>\<open>writeto\<close> call ends\<close>
  ticks :: "nat \<Rightarrow> int"              \<comment> \<open>what the k-th \<^verbatim>\<open>ticks_ms()\<close> call returns\<close>
  reads :: nat                       \<comment> \<open>number of \<^verbatim>\<open>ticks_ms()\<close> calls so far\<close>
  slept :: nat                       \<comment> \<open>milliseconds spent in \<^verbatim>\<open>utime.sleep\<close> so far\<close>

definition next_reply :: "world \<Rightarrow> outcome" where
  "next_reply w = replies w (length (wire w))"

definition writeto :: "world \<Rightarrow> int \<Rightarrow> payload \<Rightarrow> outcome \<times> world" where
  "writeto w addr buf = (next_reply w, w\<lparr>wire := wire w @ [(addr, buf)]\<rparr>)"

definition ticks_ms :: "world \<Rightarrow> int \<times> world" where
  "ticks_ms w = (ticks w (reads w), w\<lparr>reads := Suc (reads w)\<rparr>)"

text \<open>\<^verbatim>\<open>utime.sleep(seconds)\<close>, with the argument given here in milliseconds.\<close>

definition sleep :: "nat \<Rightarrow> world \<Rightarrow> world" where
  "sleep ms w = w\<lparr>slept := slept w + ms\<rparr>"

text \<open>
  The world after one write by \<^verbatim>\<open>send_commands\<close> or \<^verbatim>\<open>send_text\<close>: the buffer is on
  the wire, and a write that returned is followed by the delay of 10 ms.
\<close>

definition written :: "world \<Rightarrow> int \<Rightarrow> payload \<Rightarrow> world" where
  "written w addr buf =
     (case next_reply w of
        Inl e \<Rightarrow> w\<lparr>wire := wire w @ [(addr, buf)]\<rparr>
      | Inr r \<Rightarrow> sleep 10 (w\<lparr>wire := wire w @ [(addr, buf)]\<rparr>))"

text \<open>
  \<^verbatim>\<open>utime.ticks_diff(a, b)\<close> as MicroPython documents it: the difference of two tick
  values taken modulo the tick period (\<open>2 ^ 30\<close>) and read as a signed number.
\<close>

definition ticks_diff :: "int \<Rightarrow> int \<Rightarrow> int" where
  "ticks_diff a b = (a - b + 2 ^ 29) mod 2 ^ 30 - 2 ^ 29"

text \<open>
  MicroPython's \<^verbatim>\<open>bytearray(list)\<close> stores the low eight bits of every element and
  checks no range.
\<close>

definition bytearray :: "int list \<Rightarrow> 8 word list" where
  "bytearray block = map word_of_int block"

text \<open>
  Python's \<^verbatim>\<open>s[i:j]\<close>: a negative bound counts from the end, both bounds are then
  clipped to the sequence, and an empty range gives the empty sequence.
\<close>

definition clip_bound :: "int \<Rightarrow> int \<Rightarrow> int" where
  "clip_bound k n = (if k < 0 then max (k + n) 0 else min k n)"

definition py_slice :: "'a list \<Rightarrow> int \<Rightarrow> int \<Rightarrow> 'a list" where
  "py_slice xs i j =
     (let n = int (length xs); lo = clip_bound i n; hi = clip_bound j n
      in take (nat (hi - lo)) (drop (nat lo) xs))"

section \<open>Constants of the module\<close>

definition MAX_ROWS :: int where "MAX_ROWS = 4"
definition MAX_COLUMNS :: int where "MAX_COLUMNS = 20"

definition SPECIAL_COMMAND :: int where "SPECIAL_COMMAND = 254"
definition SETTING_COMMAND :: int where "SETTING_COMMAND = 0x7C"

definition CLEAR_COMMAND :: int where "CLEAR_COMMAND = 0x2D"
definition CONTRAST_COMMAND :: int where "CONTRAST_COMMAND = 0x18"
definition ADDRESS_COMMAND :: int where "ADDRESS_COMMAND = 0x19"
definition SET_RGB_COMMAND :: int where "SET_RGB_COMMAND = 0x2B"
definition ENABLE_SYSTEM_MESSAGE_DISPLAY :: int where "ENABLE_SYSTEM_MESSAGE_DISPLAY = 0x2E"
definition DISABLE_SYSTEM_MESSAGE_DISPLAY :: int where "DISABLE_SYSTEM_MESSAGE_DISPLAY = 0x2F"
definition ENABLE_SPLASH_DISPLAY :: int where "ENABLE_SPLASH_DISPLAY = 0x30"
definition DISABLE_SPLASH_DISPLAY :: int where "DISABLE_SPLASH_DISPLAY = 0x31"
definition SAVE_CURRENT_DISPLAY_AS_SPLASH :: int where "SAVE_CURRENT_DISPLAY_AS_SPLASH = 0x0A"

definition LCD_ENTRYMODESET :: int where "LCD_ENTRYMODESET = 0x04"
definition LCD_DISPLAYCONTROL :: int where "LCD_DISPLAYCONTROL = 0x08"
definition LCD_SETDDRAMADDR :: int where "LCD_SETDDRAMADDR = 0x80"

definition LCD_ENTRYLEFT :: int where "LCD_ENTRYLEFT = 0x02"
definition LCD_ENTRYSHIFTDECREMENT :: int where "LCD_ENTRYSHIFTDECREMENT = 0x00"

definition LCD_DISPLAYON :: int where "LCD_DISPLAYON = 0x04"
definition LCD_CURSORON :: int where "LCD_CURSORON = 0x02"
definition LCD_CURSOROFF :: int where "LCD_CURSOROFF = 0x00"
definition LCD_BLINKON :: int where "LCD_BLINKON = 0x01"
definition LCD_BLINKOFF :: int where "LCD_BLINKOFF = 0x00"

section \<open>The handle\<close>

text \<open>
  The attributes of a \<^verbatim>\<open>QwiicSerlcdU\<close> object. \<^verbatim>\<open>_displayControl\<close> is a class
  attribute that the first augmented assignment copies into the object, which for one
  object is a field with the class's value at the start. \<^verbatim>\<open>_displayMode\<close> and
  \<^verbatim>\<open>_defaultValue\<close> are never assigned and stay constants. Columns and rows are the
  Python integers the constructor was given: it checks neither sign nor size.
\<close>

record lcd =
  address :: int
  lcd_columns :: int
  lcd_rows :: int
  last_refreshed :: int
  index :: int
  displayControl :: int

definition displayMode :: int where
  "displayMode = LCD_ENTRYLEFT OR LCD_ENTRYSHIFTDECREMENT"

definition defaultValue :: int where
  "defaultValue = 20"

definition init :: "int \<Rightarrow> int \<Rightarrow> int \<Rightarrow> world \<Rightarrow> lcd \<times> world" where
  "init i2c_address columns rows w =
     (let (now, w) = ticks_ms w
      in (\<lparr>address = i2c_address, lcd_columns = columns, lcd_rows = rows,
           last_refreshed = now, index = 0,
           displayControl = LCD_DISPLAYON OR LCD_CURSOROFF OR LCD_BLINKOFF\<rparr>, w))"

section \<open>Results and sequencing\<close>

type_synonym 'a res = "(oserror + 'a) \<times> lcd \<times> world"

fun result_of :: "'a res \<Rightarrow> oserror + 'a" where
  "result_of (r, l, w) = r"

fun lcd_of :: "'a res \<Rightarrow> lcd" where
  "lcd_of (r, l, w) = l"

fun world_of :: "'a res \<Rightarrow> world" where
  "world_of (r, l, w) = w"

text \<open>
  One statement after another: an exception ends the method at once, with the handle
  and the world as they are then.
\<close>

definition and_then :: "'a res \<Rightarrow> ('a \<Rightarrow> lcd \<Rightarrow> world \<Rightarrow> 'b res) \<Rightarrow> 'b res" where
  "and_then m f =
     (case m of
        (Inl e, l, w) \<Rightarrow> (Inl e, l, w)
      | (Inr v, l, w) \<Rightarrow> f v l w)"

text \<open>
  \<open>made w m k\<close>: the write number \<open>k\<close> of the whole history is one of those made on the
  way from the world \<open>w\<close> to the result \<open>m\<close>.
\<close>

definition made :: "world \<Rightarrow> 'a res \<Rightarrow> nat \<Rightarrow> bool" where
  "made w m k \<longleftrightarrow> length (wire w) \<le> k \<and> k < length (wire (world_of m))"

text \<open>
  \<open>orderly w m\<close>: on the way from \<open>w\<close> to \<open>m\<close> the wire has only grown, the replies are
  the same script, and a write that raised ended the way with its exception.
\<close>

definition orderly :: "world \<Rightarrow> 'a res \<Rightarrow> bool" where
  "orderly w m \<longleftrightarrow>
     replies (world_of m) = replies w \<and>
     length (wire w) \<le> length (wire (world_of m)) \<and>
     (\<forall>k e. made w m k \<and> replies w k = Inl e \<longrightarrow> result_of m = Inl e)"

section \<open>The methods\<close>

definition send_commands :: "lcd \<Rightarrow> world \<Rightarrow> int list \<Rightarrow> pyval res" where
  "send_commands l w block =
     (case writeto w (address l) (Bytes (bytearray block)) of
        (Inl e, w) \<Rightarrow> (Inl e, l, w)
      | (Inr result, w) \<Rightarrow> (Inr result, l, sleep 10 w))"

definition send_text :: "lcd \<Rightarrow> world \<Rightarrow> string \<Rightarrow> pyval res" where
  "send_text l w text =
     (case writeto w (address l) (Text text) of
        (Inl e, w) \<Rightarrow> (Inl e, l, w)
      | (Inr result, w) \<Rightarrow> (Inr result, l, sleep 10 w))"

definition clear_display :: "lcd \<Rightarrow> world \<Rightarrow> pyval res" where
  "clear_display l w = send_commands l w [SETTING_COMMAND, CLEAR_COMMAND]"

text \<open>
  In MicroPython \<^verbatim>\<open>bool(a) & bool(b) & bool(c)\<close> is the integer 1 when the three are
  true and the integer 0 otherwise.
\<close>

definition begin_lcd :: "lcd \<Rightarrow> world \<Rightarrow> pyval res" where
  "begin_lcd l w =
     (let w = sleep 1000 w in
      and_then (send_commands l w [SPECIAL_COMMAND, LCD_DISPLAYCONTROL OR displayControl l])
        (\<lambda>result0 l w.
      and_then (send_commands l w [SPECIAL_COMMAND, LCD_ENTRYMODESET OR displayMode])
        (\<lambda>result1 l w.
      and_then (clear_display l w)
        (\<lambda>result2 l w.
      (Inr (PyInt (if truthy result0 \<and> truthy result1 \<and> truthy result2 then 1 else 0)),
       l, w)))))"

definition display :: "lcd \<Rightarrow> world \<Rightarrow> string \<Rightarrow> pyval res" where
  "display l w message =
     and_then (send_commands l w [SETTING_COMMAND, CLEAR_COMMAND]) (\<lambda>_ l w.
     and_then (send_text l w (py_slice message 0 (lcd_columns l * lcd_rows l))) (\<lambda>_ l w.
     (Inr PyNone, l, w)))"

definition append_display :: "lcd \<Rightarrow> world \<Rightarrow> string \<Rightarrow> pyval res" where
  "append_display l w message = send_text l w message"

text \<open>
  The loop \<^verbatim>\<open>for i in range(len(line_1), self.lcd_columns): line_1 += " "\<close>: the
  range is fixed before the first iteration, and each iteration appends one space.
\<close>

fun pad_loop :: "nat \<Rightarrow> string \<Rightarrow> string" where
  "pad_loop 0 line_1 = line_1"
| "pad_loop (Suc k) line_1 = pad_loop k (line_1 @ '' '')"

definition display_lines :: "lcd \<Rightarrow> world \<Rightarrow> string \<Rightarrow> string \<Rightarrow> pyval res" where
  "display_lines l w first_line second_line =
     (let line_1 = py_slice first_line 0 (lcd_columns l);
          line_2 = py_slice second_line 0 (lcd_columns l);
          line_1 = pad_loop (nat (lcd_columns l - int (length line_1))) line_1
      in display l w (line_1 @ line_2))"

text \<open>The window that \<^verbatim>\<open>display_scrolling\<close> composes in \<^verbatim>\<open>visible_message\<close>.\<close>

definition visible_message :: "lcd \<Rightarrow> string \<Rightarrow> string" where
  "visible_message l message =
     (let visible = py_slice message (index l) (lcd_columns l * lcd_rows l + index l)
      in if lcd_columns l * lcd_rows l + index l > int (length message)
         then visible @
              py_slice message 0 (lcd_columns l * lcd_rows l + index l - int (length message))
         else visible)"

definition display_scrolling :: "lcd \<Rightarrow> world \<Rightarrow> string \<Rightarrow> int \<Rightarrow> pyval res" where
  "display_scrolling l w message duration =
     (let (now, w) = ticks_ms w in
      if ticks_diff now (last_refreshed l) > duration then
        and_then (display l w (visible_message l message)) (\<lambda>_ l w.
          let (now, w) = ticks_ms w;
              l = l\<lparr>last_refreshed := now\<rparr>;
              l = l\<lparr>index := index l + 1\<rparr>;
              l = (if index l > int (length message) then l\<lparr>index := 0\<rparr> else l)
          in (Inr PyNone, l, w))
      else (Inr PyNone, l, w))"

definition set_contrast :: "lcd \<Rightarrow> world \<Rightarrow> int \<Rightarrow> pyval res" where
  "set_contrast l w contrast = send_commands l w [SETTING_COMMAND, CONTRAST_COMMAND, contrast]"

definition set_rgb_backlight :: "lcd \<Rightarrow> world \<Rightarrow> int \<Rightarrow> int \<Rightarrow> int \<Rightarrow> pyval res" where
  "set_rgb_backlight l w r g b = send_commands l w [SETTING_COMMAND, SET_RGB_COMMAND, r, g, b]"

definition row_offsets :: "int list" where
  "row_offsets = [0x00, 0x40, 0x14, 0x54]"

text \<open>After the two clamps \<open>row\<close> is one of 0, 1, 2, 3, so the list access never fails.\<close>

definition set_cursor :: "lcd \<Rightarrow> world \<Rightarrow> int \<Rightarrow> int \<Rightarrow> pyval res" where
  "set_cursor l w col row =
     (let row = max 0 row;
          row = min row (MAX_ROWS - 1)
      in send_commands l w
           [SPECIAL_COMMAND, LCD_SETDDRAMADDR OR (col + row_offsets ! nat row)])"

definition enable_cursor :: "lcd \<Rightarrow> world \<Rightarrow> pyval res" where
  "enable_cursor l w =
     (let l = l\<lparr>displayControl := displayControl l OR LCD_CURSORON\<rparr>
      in send_commands l w [SPECIAL_COMMAND, LCD_DISPLAYCONTROL OR displayControl l])"

definition disable_cursor :: "lcd \<Rightarrow> world \<Rightarrow> pyval res" where
  "disable_cursor l w =
     (let l = l\<lparr>displayControl := displayControl l AND NOT LCD_CURSORON\<rparr>
      in send_commands l w [SPECIAL_COMMAND, LCD_DISPLAYCONTROL OR displayControl l])"

definition enable_cursor_blink :: "lcd \<Rightarrow> world \<Rightarrow> pyval res" where
  "enable_cursor_blink l w =
     (let l = l\<lparr>displayControl := displayControl l OR LCD_BLINKON\<rparr>
      in send_commands l w [SPECIAL_COMMAND, LCD_DISPLAYCONTROL OR displayControl l])"

definition disable_cursor_blink :: "lcd \<Rightarrow> world \<Rightarrow> pyval res" where
  "disable_cursor_blink l w =
     (let l = l\<lparr>displayControl := displayControl l AND NOT LCD_BLINKON\<rparr>
      in send_commands l w [SPECIAL_COMMAND, LCD_DISPLAYCONTROL OR displayControl l])"

definition enable_display :: "lcd \<Rightarrow> world \<Rightarrow> pyval res" where
  "enable_display l w =
     (let l = l\<lparr>displayControl := displayControl l OR LCD_DISPLAYON\<rparr>
      in send_commands l w [SPECIAL_COMMAND, LCD_DISPLAYCONTROL OR displayControl l])"

definition disable_display :: "lcd \<Rightarrow> world \<Rightarrow> pyval res" where
  "disable_display l w =
     (let l = l\<lparr>displayControl := displayControl l AND NOT LCD_DISPLAYON\<rparr>
      in send_commands l w [SPECIAL_COMMAND, LCD_DISPLAYCONTROL OR displayControl l])"

definition enable_system_messages :: "lcd \<Rightarrow> world \<Rightarrow> pyval res" where
  "enable_system_messages l w =
     send_commands l w [SETTING_COMMAND, ENABLE_SYSTEM_MESSAGE_DISPLAY]"

definition disable_system_messages :: "lcd \<Rightarrow> world \<Rightarrow> pyval res" where
  "disable_system_messages l w =
     send_commands l w [SETTING_COMMAND, DISABLE_SYSTEM_MESSAGE_DISPLAY]"

definition enable_splash :: "lcd \<Rightarrow> world \<Rightarrow> pyval res" where
  "enable_splash l w = send_commands l w [SETTING_COMMAND, ENABLE_SPLASH_DISPLAY]"

definition disable_splash :: "lcd \<Rightarrow> world \<Rightarrow> pyval res" where
  "disable_splash l w = send_commands l w [SETTING_COMMAND, DISABLE_SPLASH_DISPLAY]"

definition save_splash :: "lcd \<Rightarrow> world \<Rightarrow> pyval res" where
  "save_splash l w = send_commands l w [SETTING_COMMAND, SAVE_CURRENT_DISPLAY_AS_SPLASH]"

definition set_address :: "lcd \<Rightarrow> world \<Rightarrow> int \<Rightarrow> pyval res" where
  "set_address l w new_address =
     and_then (send_commands l w [SETTING_COMMAND, ADDRESS_COMMAND, new_address])
       (\<lambda>result l w.
          let w = sleep 50 w;
              l = l\<lparr>address := new_address\<rparr>
          in (Inr result, l, w))"

text \<open>The results of the eight calls are dropped; an exception of any of them is not.\<close>

definition default_settings :: "lcd \<Rightarrow> world \<Rightarrow> pyval res" where
  "default_settings l w =
     and_then (disable_display l w) (\<lambda>_ l w.
     and_then (disable_system_messages l w) (\<lambda>_ l w.
     and_then (set_contrast l w defaultValue) (\<lambda>_ l w.
     and_then (set_rgb_backlight l w defaultValue defaultValue defaultValue) (\<lambda>_ l w.
     and_then (enable_splash l w) (\<lambda>_ l w.
     and_then (clear_display l w) (\<lambda>_ l w.
     and_then (enable_system_messages l w) (\<lambda>_ l w.
     and_then (enable_display l w) (\<lambda>_ l w.
     (Inr PyNone, l, w)))))))))"

section \<open>Calls of the public interface\<close>

text \<open>
  One constructor for every public method of the class (\<^verbatim>\<open>send_commands\<close> and
  \<^verbatim>\<open>send_text\<close> are marked "Do not use"), so that a statement can range over all of
  them.
\<close>

datatype call =
    Begin
  | Default_settings
  | Display string
  | Append_display string
  | Display_lines string string
  | Display_scrolling string int
  | Clear_display
  | Set_contrast int
  | Set_rgb_backlight int int int
  | Set_cursor int int
  | Enable_cursor
  | Disable_cursor
  | Enable_cursor_blink
  | Disable_cursor_blink
  | Enable_display
  | Disable_display
  | Enable_system_messages
  | Disable_system_messages
  | Enable_splash
  | Disable_splash
  | Save_splash
  | Set_address int

fun invoke :: "call \<Rightarrow> lcd \<Rightarrow> world \<Rightarrow> pyval res" where
  "invoke Begin l w = begin_lcd l w"
| "invoke Default_settings l w = default_settings l w"
| "invoke (Display message) l w = display l w message"
| "invoke (Append_display message) l w = append_display l w message"
| "invoke (Display_lines first_line second_line) l w = display_lines l w first_line second_line"
| "invoke (Display_scrolling message duration) l w = display_scrolling l w message duration"
| "invoke Clear_display l w = clear_display l w"
| "invoke (Set_contrast contrast) l w = set_contrast l w contrast"
| "invoke (Set_rgb_backlight r g b) l w = set_rgb_backlight l w r g b"
| "invoke (Set_cursor col row) l w = set_cursor l w col row"
| "invoke Enable_cursor l w = enable_cursor l w"
| "invoke Disable_cursor l w = disable_cursor l w"
| "invoke Enable_cursor_blink l w = enable_cursor_blink l w"
| "invoke Disable_cursor_blink l w = disable_cursor_blink l w"
| "invoke Enable_display l w = enable_display l w"
| "invoke Disable_display l w = disable_display l w"
| "invoke Enable_system_messages l w = enable_system_messages l w"
| "invoke Disable_system_messages l w = disable_system_messages l w"
| "invoke Enable_splash l w = enable_splash l w"
| "invoke Disable_splash l w = disable_splash l w"
| "invoke Save_splash l w = save_splash l w"
| "invoke (Set_address new_address) l w = set_address l w new_address"

text \<open>
  A caller making one call after another on the same handle. It goes on whatever a call
  returned, and also after an exception (which it must have caught).
\<close>

fun run :: "call list \<Rightarrow> lcd \<Rightarrow> world \<Rightarrow> lcd \<times> world" where
  "run [] l w = (l, w)"
| "run (c # cs) l w = run cs (lcd_of (invoke c l w)) (world_of (invoke c l w))"

text \<open>The methods whose body makes one write and returns what it returned.\<close>

fun single_write :: "call \<Rightarrow> bool" where
  "single_write Begin = False"
| "single_write Default_settings = False"
| "single_write (Display message) = False"
| "single_write (Display_lines first_line second_line) = False"
| "single_write (Display_scrolling message duration) = False"
| "single_write c = True"

text \<open>The six methods that write \<^verbatim>\<open>_displayControl\<close>.\<close>

fun is_toggle :: "call \<Rightarrow> bool" where
  "is_toggle Enable_cursor = True"
| "is_toggle Disable_cursor = True"
| "is_toggle Enable_cursor_blink = True"
| "is_toggle Disable_cursor_blink = True"
| "is_toggle Enable_display = True"
| "is_toggle Disable_display = True"
| "is_toggle c = False"

text \<open>
  The assignment a call makes to \<^verbatim>\<open>_displayControl\<close> before its write; only the six
  toggles make one.
\<close>

fun toggle_bits :: "call \<Rightarrow> int \<Rightarrow> int" where
  "toggle_bits Enable_cursor dc = dc OR LCD_CURSORON"
| "toggle_bits Disable_cursor dc = dc AND NOT LCD_CURSORON"
| "toggle_bits Enable_cursor_blink dc = dc OR LCD_BLINKON"
| "toggle_bits Disable_cursor_blink dc = dc AND NOT LCD_BLINKON"
| "toggle_bits Enable_display dc = dc OR LCD_DISPLAYON"
| "toggle_bits Disable_display dc = dc AND NOT LCD_DISPLAYON"
| "toggle_bits c dc = dc"

section \<open>The display-control flags as the specification describes them\<close>

text \<open>
  The specification's DisplayControlFlags: three flags, display, cursor and blink,
  starting as display on, cursor off, blink off; a toggle sets or clears the one flag it
  names. These definitions follow the specification's words; the theorems compare them
  with the bit operations of the code.
\<close>

record flags =
  display_on :: bool
  cursor_on :: bool
  blink_on :: bool

definition initial_flags :: flags where
  "initial_flags = \<lparr>display_on = True, cursor_on = False, blink_on = False\<rparr>"

fun spec_toggle :: "call \<Rightarrow> flags \<Rightarrow> flags" where
  "spec_toggle Enable_cursor f = f\<lparr>cursor_on := True\<rparr>"
| "spec_toggle Disable_cursor f = f\<lparr>cursor_on := False\<rparr>"
| "spec_toggle Enable_cursor_blink f = f\<lparr>blink_on := True\<rparr>"
| "spec_toggle Disable_cursor_blink f = f\<lparr>blink_on := False\<rparr>"
| "spec_toggle Enable_display f = f\<lparr>display_on := True\<rparr>"
| "spec_toggle Disable_display f = f\<lparr>display_on := False\<rparr>"
| "spec_toggle c f = f"

definition flags_bits :: "flags \<Rightarrow> int" where
  "flags_bits f =
     (if display_on f then 4 else 0) + (if cursor_on f then 2 else 0) +
     (if blink_on f then 1 else 0)"

text \<open>The flags after all of a list of toggles, and the flag bits after each of them.\<close>

fun spec_flags :: "flags \<Rightarrow> call list \<Rightarrow> flags" where
  "spec_flags f [] = f"
| "spec_flags f (c # cs) = spec_flags (spec_toggle c f) cs"

fun spec_sent :: "flags \<Rightarrow> call list \<Rightarrow> int list" where
  "spec_sent f [] = []"
| "spec_sent f (c # cs) = flags_bits (spec_toggle c f) # spec_sent (spec_toggle c f) cs"

text \<open>The flag a toggle names: 4 for display, 2 for cursor, 1 for blink (0 for no toggle).\<close>

fun flag_of :: "call \<Rightarrow> int" where
  "flag_of Enable_cursor = LCD_CURSORON"
| "flag_of Disable_cursor = LCD_CURSORON"
| "flag_of Enable_cursor_blink = LCD_BLINKON"
| "flag_of Disable_cursor_blink = LCD_BLINKON"
| "flag_of Enable_display = LCD_DISPLAYON"
| "flag_of Disable_display = LCD_DISPLAYON"
| "flag_of c = 0"

section \<open>Concrete handles and environments\<close>

definition always :: "outcome \<Rightarrow> nat \<Rightarrow> outcome" where
  "always r k = r"

definition steady_clock :: "nat \<Rightarrow> int" where
  "steady_clock k = 1000 * int k"

definition quiet_world :: "(nat \<Rightarrow> outcome) \<Rightarrow> world" where
  "quiet_world rs = \<lparr>wire = [], replies = rs, ticks = steady_clock, reads = 0, slept = 0\<rparr>"

text \<open>
  \<open>new_lcd a c r\<close> is the handle that \<^verbatim>\<open>QwiicSerlcdU(i2c, a, c, r)\<close> makes when the
  clock reads 0 (the demo script makes \<open>new_lcd 0x72 16 2\<close>), and \<open>constructed rs\<close> the
  world right after the constructor: the clock read once, nothing written yet, and
  \<open>rs\<close> the replies that the writes will get.
\<close>

definition new_lcd :: "int \<Rightarrow> int \<Rightarrow> int \<Rightarrow> lcd" where
  "new_lcd i2c_address columns rows =
     fst (init i2c_address columns rows (quiet_world (always (Inr PyNone))))"

text \<open>A handle that scrolling has brought to index \<open>i\<close>.\<close>

definition at_index :: "lcd \<Rightarrow> int \<Rightarrow> lcd" where
  "at_index l i = l\<lparr>index := i\<rparr>"

definition constructed :: "(nat \<Rightarrow> outcome) \<Rightarrow> world" where
  "constructed rs = snd (init 0x72 16 2 (quiet_world rs))"

text \<open>
  A display of three columns and one row after ten calls of
  \<^verbatim>\<open>display_scrolling("0123456789", 300)\<close>, every write returning 1 and the clock a
  second further at every reading: all ten calls are due.
\<close>

definition ten_steps :: "lcd \<times> world" where
  "ten_steps =
     run (replicate 10 (Display_scrolling ''0123456789'' 300)) (new_lcd 0x72 3 1)
       (constructed (always (Inr (PyInt 1))))"

definition ack :: outcome where "ack = Inr (PyInt 1)"
definition nack :: outcome where "nack = Inr (PyInt 0)"
definition enodev :: outcome where "enodev = Inl (OSError 19)"

section \<open>Basic facts about the environment and the two senders\<close>

lemmas command_defs =
  SPECIAL_COMMAND_def SETTING_COMMAND_def CLEAR_COMMAND_def CONTRAST_COMMAND_def
  ADDRESS_COMMAND_def SET_RGB_COMMAND_def ENABLE_SYSTEM_MESSAGE_DISPLAY_def
  DISABLE_SYSTEM_MESSAGE_DISPLAY_def ENABLE_SPLASH_DISPLAY_def DISABLE_SPLASH_DISPLAY_def
  SAVE_CURRENT_DISPLAY_AS_SPLASH_def LCD_ENTRYMODESET_def LCD_DISPLAYCONTROL_def
  LCD_SETDDRAMADDR_def LCD_ENTRYLEFT_def LCD_ENTRYSHIFTDECREMENT_def LCD_DISPLAYON_def
  LCD_CURSORON_def LCD_CURSOROFF_def LCD_BLINKON_def LCD_BLINKOFF_def MAX_ROWS_def
  MAX_COLUMNS_def

lemma writeto_simps [simp]:
  "fst (writeto w a buf) = next_reply w"
  "wire (snd (writeto w a buf)) = wire w @ [(a, buf)]"
  "replies (snd (writeto w a buf)) = replies w"
  "ticks (snd (writeto w a buf)) = ticks w"
  "reads (snd (writeto w a buf)) = reads w"
  "slept (snd (writeto w a buf)) = slept w"
  by (simp_all add: writeto_def)

lemma sleep_simps [simp]:
  "wire (sleep ms w) = wire w"
  "replies (sleep ms w) = replies w"
  "ticks (sleep ms w) = ticks w"
  "reads (sleep ms w) = reads w"
  "slept (sleep ms w) = slept w + ms"
  "next_reply (sleep ms w) = next_reply w"
  by (simp_all add: sleep_def next_reply_def)

lemma ticks_ms_simps [simp]:
  "fst (ticks_ms w) = ticks w (reads w)"
  "wire (snd (ticks_ms w)) = wire w"
  "replies (snd (ticks_ms w)) = replies w"
  "ticks (snd (ticks_ms w)) = ticks w"
  "reads (snd (ticks_ms w)) = Suc (reads w)"
  "next_reply (snd (ticks_ms w)) = next_reply w"
  by (simp_all add: ticks_ms_def next_reply_def)

lemma written_simps [simp]:
  "wire (written w a buf) = wire w @ [(a, buf)]"
  "replies (written w a buf) = replies w"
  "ticks (written w a buf) = ticks w"
  "reads (written w a buf) = reads w"
  by (simp_all add: written_def split: sum.splits)

lemma next_reply_written [simp]:
  "next_reply (written w a buf) = replies w (Suc (length (wire w)))"
  by (simp add: next_reply_def)

text \<open>Both senders make one write, return what it returned and leave the handle alone.\<close>

lemma send_commands_eq:
  "send_commands l w block = (next_reply w, l, written w (address l) (Bytes (bytearray block)))"
  by (simp add: send_commands_def writeto_def written_def split: sum.splits)

lemma send_text_eq:
  "send_text l w text = (next_reply w, l, written w (address l) (Text text))"
  by (simp add: send_text_def writeto_def written_def split: sum.splits)

lemma and_then_Inl [simp]: "and_then (Inl e, l, w) f = (Inl e, l, w)"
  by (simp add: and_then_def)

lemma and_then_Inr [simp]: "and_then (Inr v, l, w) f = f v l w"
  by (simp add: and_then_def)

lemma new_lcd_eq:
  "new_lcd a c r =
     \<lparr>address = a, lcd_columns = c, lcd_rows = r, last_refreshed = 0, index = 0,
      displayControl = 4\<rparr>"
  by (simp add: new_lcd_def init_def ticks_ms_def quiet_world_def steady_clock_def command_defs)

lemma constructed_eq:
  "constructed rs = \<lparr>wire = [], replies = rs, ticks = steady_clock, reads = 1, slept = 0\<rparr>"
  by (simp add: constructed_def init_def ticks_ms_def quiet_world_def)

lemma and_then_eq:
  "and_then (r, l, w) f = (case r of Inl e \<Rightarrow> (Inl e, l, w) | Inr v \<Rightarrow> f v l w)"
  by (cases r) simp_all

lemma new_lcd_simps [simp]:
  "address (new_lcd a c r) = a"
  "lcd_columns (new_lcd a c r) = c"
  "lcd_rows (new_lcd a c r) = r"
  "last_refreshed (new_lcd a c r) = 0"
  "index (new_lcd a c r) = 0"
  "displayControl (new_lcd a c r) = 4"
  by (simp_all add: new_lcd_eq)

lemma at_index_simps [simp]:
  "address (at_index l i) = address l"
  "lcd_columns (at_index l i) = lcd_columns l"
  "lcd_rows (at_index l i) = lcd_rows l"
  "last_refreshed (at_index l i) = last_refreshed l"
  "index (at_index l i) = i"
  "displayControl (at_index l i) = displayControl l"
  by (simp_all add: at_index_def)

lemma constructed_simps [simp]:
  "wire (constructed rs) = []"
  "replies (constructed rs) = rs"
  "ticks (constructed rs) = steady_clock"
  "reads (constructed rs) = 1"
  "next_reply (constructed rs) = rs 0"
  by (simp_all add: constructed_eq next_reply_def)

lemma reply_simps [simp]:
  "always r k = r"
  "ack = Inr (PyInt 1)"
  "nack = Inr (PyInt 0)"
  "enodev = Inl (OSError 19)"
  by (simp_all add: always_def ack_def nack_def enodev_def)

lemma steady_clock_simps [simp]: "steady_clock k = 1000 * int k"
  by (simp add: steady_clock_def)

lemmas method_defs =
  append_display_def clear_display_def set_contrast_def set_rgb_backlight_def set_cursor_def
  enable_cursor_def disable_cursor_def enable_cursor_blink_def disable_cursor_blink_def
  enable_display_def disable_display_def enable_system_messages_def
  disable_system_messages_def enable_splash_def disable_splash_def save_splash_def
  set_address_def

section \<open>Slices, the padding loop and the scrolling window\<close>

text \<open>With bounds inside the usual range a slice is a \<open>take\<close> of a \<open>drop\<close>.\<close>

lemma py_slice_from_0: "0 \<le> j \<Longrightarrow> py_slice xs 0 j = take (nat j) xs"
  by (auto simp: py_slice_def clip_bound_def Let_def min_def)

lemma py_slice_inside:
  "0 \<le> i \<Longrightarrow> i \<le> j \<Longrightarrow> py_slice xs i j = take (nat (j - i)) (drop (nat i) xs)"
  by (auto simp: py_slice_def clip_bound_def Let_def min_def)

lemma pad_loop_replicate: "pad_loop k line = line @ replicate k (CHR '' '')"
  by (induction k arbitrary: line) (simp_all add: replicate_app_Cons_same)

lemma visible_message_eq:
  assumes "0 \<le> index l" "0 \<le> lcd_columns l * lcd_rows l"
  shows "visible_message l message =
           take (nat (lcd_columns l * lcd_rows l)) (drop (nat (index l)) message) @
           take (nat (lcd_columns l * lcd_rows l + index l) - length message) message"
  using assms
  by (auto simp: visible_message_def Let_def py_slice_inside py_slice_from_0 nat_diff_distrib')

lemma length_visible_message_le:
  assumes "0 \<le> index l" "index l \<le> int (length message)" "0 \<le> lcd_columns l * lcd_rows l"
  shows "int (length (visible_message l message)) \<le> lcd_columns l * lcd_rows l"
  using assms by (simp add: visible_message_eq)

lemma length_visible_message:
  assumes "0 \<le> index l" "index l \<le> int (length message)" "0 \<le> lcd_columns l * lcd_rows l"
    "lcd_columns l * lcd_rows l \<le> int (length message)"
  shows "int (length (visible_message l message)) = lcd_columns l * lcd_rows l"
  using assms by (simp add: visible_message_eq)

text \<open>The exact length of the composed window and of what \<^verbatim>\<open>display\<close> keeps of it.\<close>

lemma length_two_slices:
  fixes W i :: int
  assumes "0 \<le> i" "0 \<le> W"
  shows "int (length (take (nat W) (drop (nat i) msg) @ take (nat (W + i) - length msg) msg)) =
           (if i \<le> int (length msg) then min W (2 * int (length msg) - i)
            else min (W + i - int (length msg)) (int (length msg)))"
  using assms by (auto simp: min_def)

lemma length_visible_message_exact:
  assumes "0 \<le> index l" "0 \<le> lcd_columns l * lcd_rows l"
  shows "int (length (visible_message l message)) =
           (if index l \<le> int (length message)
            then min (lcd_columns l * lcd_rows l) (2 * int (length message) - index l)
            else min (lcd_columns l * lcd_rows l + index l - int (length message))
                   (int (length message)))"
  using assms length_two_slices [of "index l" "lcd_columns l * lcd_rows l" message]
  by (simp only: visible_message_eq)

lemma length_take_int:
  fixes W :: int
  assumes "0 \<le> W"
  shows "int (length (take (nat W) xs)) = min W (int (length xs))"
  using assms by (auto simp: min_def)

lemma length_written_window:
  assumes "0 \<le> index l" "0 \<le> lcd_columns l * lcd_rows l"
  shows "int (length (take (nat (lcd_columns l * lcd_rows l)) (visible_message l message))) =
           (if index l \<le> int (length message)
            then min (lcd_columns l * lcd_rows l) (2 * int (length message) - index l)
            else min (lcd_columns l * lcd_rows l) (int (length message)))"
  using assms
  by (simp only: length_take_int length_visible_message_exact) (auto simp: min_def)

section \<open>What \<^verbatim>\<open>display\<close> does\<close>

text \<open>
  The clear command is written first. If that write raises, the method ends there; if it
  returns, the slice of the message is written, and the method returns \<^verbatim>\<open>None\<close>
  unless this second write raises.
\<close>

lemma display_eq:
  "display l w message =
     (case next_reply w of
        Inl e \<Rightarrow> (Inl e, l, written w (address l) (Bytes [0x7C, 0x2D]))
      | Inr r \<Rightarrow>
         (case replies w (Suc (length (wire w))) of
            Inl e \<Rightarrow> Inl e
          | Inr r' \<Rightarrow> Inr PyNone,
          l,
          written (written w (address l) (Bytes [0x7C, 0x2D])) (address l)
            (Text (py_slice message 0 (lcd_columns l * lcd_rows l)))))"
  by (simp add: display_def send_commands_eq send_text_eq bytearray_def command_defs
      split: sum.splits)

lemma display_returns:
  assumes "0 \<le> lcd_columns l * lcd_rows l" "next_reply w = Inr r"
    "replies w (Suc (length (wire w))) = Inr r'"
  shows "display l w message =
           (Inr PyNone, l,
            written (written w (address l) (Bytes [0x7C, 0x2D])) (address l)
              (Text (take (nat (lcd_columns l * lcd_rows l)) message)))"
  using assms by (simp add: display_eq py_slice_from_0)

lemma display_whole:
  assumes "int (length message) \<le> lcd_columns l * lcd_rows l" and "next_reply w = Inr r"
  shows "wire (world_of (display l w message)) =
           wire w @ [(address l, Bytes [0x7C, 0x2D]), (address l, Text message)]"
proof -
  have "0 \<le> lcd_columns l * lcd_rows l"
    using assms(1) by linarith
  moreover have "take (nat (lcd_columns l * lcd_rows l)) message = message"
    using assms(1) by (intro take_all) linarith
  ultimately show ?thesis
    using assms(2) by (simp add: display_eq py_slice_from_0)
qed

lemma display_lines_eq:
  assumes "0 \<le> lcd_columns l"
  shows "display_lines l w first_line second_line =
           display l w
             (take (nat (lcd_columns l)) first_line @
              replicate (nat (lcd_columns l) - length first_line) (CHR '' '') @
              take (nat (lcd_columns l)) second_line)"
  using assms
  by (simp add: display_lines_def Let_def py_slice_from_0 pad_loop_replicate nat_diff_distrib'
      min_def)

text \<open>
  A due call of \<^verbatim>\<open>display_scrolling\<close> whose two writes return: \<^verbatim>\<open>display\<close> writes
  the first \<open>columns * rows\<close> characters of the composed window, then the clock is
  read again and the index moves on.
\<close>

lemma display_scrolling_when_due:
  assumes due: "ticks_diff (ticks w (reads w)) (last_refreshed l) > duration"
    and size: "0 \<le> lcd_columns l * lcd_rows l"
    and returns: "next_reply w = Inr r" "replies w (Suc (length (wire w))) = Inr r'"
  shows "display_scrolling l w message duration =
          (Inr PyNone,
           l\<lparr>last_refreshed := ticks w (Suc (reads w)),
             index := (if index l + 1 > int (length message) then 0 else index l + 1)\<rparr>,
           snd (ticks_ms (written (written (snd (ticks_ms w)) (address l) (Bytes [0x7C, 0x2D]))
                  (address l)
                  (Text (take (nat (lcd_columns l * lcd_rows l)) (visible_message l message))))))"
proof -
  let ?v = "visible_message l message"
  have d: "display l (snd (ticks_ms w)) ?v =
             (Inr PyNone, l,
              written (written (snd (ticks_ms w)) (address l) (Bytes [0x7C, 0x2D])) (address l)
                (Text (take (nat (lcd_columns l * lcd_rows l)) ?v)))"
    using display_returns [of l "snd (ticks_ms w)" r r' ?v] size returns by simp
  show ?thesis
    using due by (simp add: display_scrolling_def split_beta Let_def d)
qed

text \<open>
  Scrolling one message keeps the index within the message, due or not, whatever the
  writes do; the constructor starts it at 0.
\<close>

lemma display_scrolling_index_bounds:
  assumes "0 \<le> index l" "index l \<le> int (length message)"
  shows "0 \<le> index (lcd_of (display_scrolling l w message duration)) \<and>
         index (lcd_of (display_scrolling l w message duration)) \<le> int (length message)"
  using assms
  by (simp add: display_scrolling_def display_eq split_beta Let_def split: sum.splits)

section \<open>Changing the address\<close>

text \<open>
  Claim C1, as amended. The claim says that a failed write leaves the stored address as
  it was. The code assigns \<^verbatim>\<open>self.address = new_address\<close> after the write whatever
  the write returned, so the stored address is the new one whenever the write returns,
  be the returned result a success or a failure, and what was returned is handed to the
  caller unchanged. The stored address (and the whole handle) stays as it was only when
  the write raises, because the exception leaves the method before the assignment.
\<close>

theorem set_address_stores:
  "(\<forall>r. next_reply w = Inr r \<longrightarrow>
      result_of (set_address l w new_address) = Inr r \<and>
      address (lcd_of (set_address l w new_address)) = new_address) \<and>
   (\<forall>e. next_reply w = Inl e \<longrightarrow>
      result_of (set_address l w new_address) = Inl e \<and>
      lcd_of (set_address l w new_address) = l)"
  by (simp add: set_address_def send_commands_eq)

text \<open>
  The theorem at a write that returns the failure 0 and at a write that raises, for
  \<^verbatim>\<open>set_address(0x50)\<close> on the handle at 0x72.
\<close>

theorem set_address_stores_witness:
  "next_reply (constructed (always nack)) = Inr (PyInt 0) \<and>
   result_of (set_address (new_lcd 0x72 16 2) (constructed (always nack)) 0x50) = Inr (PyInt 0) \<and>
   address (lcd_of (set_address (new_lcd 0x72 16 2) (constructed (always nack)) 0x50)) = 0x50 \<and>
   next_reply (constructed (always enodev)) = Inl (OSError 19) \<and>
   result_of (set_address (new_lcd 0x72 16 2) (constructed (always enodev)) 0x50) =
     Inl (OSError 19) \<and>
   lcd_of (set_address (new_lcd 0x72 16 2) (constructed (always enodev)) 0x50) =
     new_lcd 0x72 16 2"
proof -
  have n: "next_reply (constructed (always nack)) = Inr (PyInt 0)"
    by (simp add: constructed_eq next_reply_def always_def nack_def)
  have e: "next_reply (constructed (always enodev)) = Inl (OSError 19)"
    by (simp add: constructed_eq next_reply_def always_def enodev_def)
  from n e show ?thesis
    using set_address_stores [of "constructed (always nack)" "new_lcd 0x72 16 2" "0x50"]
      set_address_stores [of "constructed (always enodev)" "new_lcd 0x72 16 2" "0x50"]
    by simp
qed

text \<open>
  The claim as stated fails: the write of \<^verbatim>\<open>set_address(0x50)\<close> returns 0, a failure,
  and the handle that was at 0x72 is at 0x50 afterwards.
\<close>

theorem set_address_counterexample:
  "failed (next_reply (constructed (always nack))) \<and>
   address (new_lcd 0x72 16 2) = 0x72 \<and>
   address (lcd_of (set_address (new_lcd 0x72 16 2) (constructed (always nack)) 0x50)) = 0x50"
  by (simp add: set_address_def send_commands_eq new_lcd_eq constructed_eq next_reply_def
      always_def nack_def)

section \<open>What \<^verbatim>\<open>display\<close> and \<^verbatim>\<open>display_lines\<close> put on the wire\<close>

text \<open>
  Claim C7. On a handle whose \<open>columns * rows\<close> is not negative, and with a transport
  whose write of the clear command returns (with a success or with a failure; if it
  raises, the method ends before the text is written), \<^verbatim>\<open>display(text)\<close> makes two
  writes to the handle's address: the clear command \<open>0x7C, 0x2D\<close>, then the first
  \<open>columns * rows\<close> characters of the text, the whole text when it is shorter, with
  nothing added.
\<close>

theorem display_sends:
  assumes "0 \<le> lcd_columns l * lcd_rows l" and "next_reply w = Inr r"
  shows "wire (world_of (display l w text)) =
           wire w @
           [(address l, Bytes [0x7C, 0x2D]),
            (address l, Text (take (nat (lcd_columns l * lcd_rows l)) text))]"
  using assms by (simp add: display_eq py_slice_from_0)

text \<open>\<^verbatim>\<open>display("Hello")\<close> on the 16 by 2 handle: the clear command, then the five characters.\<close>

theorem display_sends_witness:
  "0 \<le> lcd_columns (new_lcd 0x72 16 2) * lcd_rows (new_lcd 0x72 16 2) \<and>
   next_reply (constructed (always ack)) = Inr (PyInt 1) \<and>
   wire (world_of (display (new_lcd 0x72 16 2) (constructed (always ack)) ''Hello'')) =
     [(0x72, Bytes [0x7C, 0x2D]), (0x72, Text ''Hello'')] \<and>
   length ''Hello'' = 5"
proof -
  have c: "0 \<le> lcd_columns (new_lcd 0x72 16 2) * lcd_rows (new_lcd 0x72 16 2)"
    by simp
  have r: "next_reply (constructed (always ack)) = Inr (PyInt 1)"
    by simp
  show ?thesis
    using c r display_sends [OF c r, of "''Hello''"]
    by simp
qed

text \<open>
  Claim C8. On a handle with a column count that is not negative,
  \<^verbatim>\<open>display_lines(line1, line2)\<close> cuts each line to \<open>columns\<close> characters, fills the
  first with spaces to exactly \<open>columns\<close> characters and hands the two, joined, to
  \<^verbatim>\<open>display\<close>. With two rows or more, \<^verbatim>\<open>display\<close> cuts nothing off, and what follows
  the clear command on the wire is this very text.
\<close>

theorem display_lines_payload:
  assumes "0 \<le> lcd_columns l"
  shows "display_lines l w first_line second_line =
           display l w
             ((take (nat (lcd_columns l)) first_line @
               replicate (nat (lcd_columns l) - length first_line) (CHR '' '')) @
              take (nat (lcd_columns l)) second_line) \<and>
         int (length (take (nat (lcd_columns l)) first_line @
               replicate (nat (lcd_columns l) - length first_line) (CHR '' ''))) = lcd_columns l \<and>
         (2 \<le> lcd_rows l \<and> (\<exists>r. next_reply w = Inr r) \<longrightarrow>
            wire (world_of (display_lines l w first_line second_line)) =
              wire w @
              [(address l, Bytes [0x7C, 0x2D]),
               (address l, Text
                  ((take (nat (lcd_columns l)) first_line @
                    replicate (nat (lcd_columns l) - length first_line) (CHR '' '')) @
                   take (nat (lcd_columns l)) second_line))])"
proof -
  let ?c = "nat (lcd_columns l)"
  let ?p = "(take ?c first_line @ replicate (?c - length first_line) (CHR '' '')) @
            take ?c second_line"
  have eq: "display_lines l w first_line second_line = display l w ?p"
    using assms by (simp add: display_lines_eq)
  have len: "int (length (take ?c first_line @ replicate (?c - length first_line) (CHR '' ''))) =
             lcd_columns l"
    using assms by simp
  have wire: "wire (world_of (display l w ?p)) =
                wire w @ [(address l, Bytes [0x7C, 0x2D]), (address l, Text ?p)]"
    if rows: "2 \<le> lcd_rows l" and ret: "next_reply w = Inr r" for r
  proof -
    have "lcd_columns l * 2 \<le> lcd_columns l * lcd_rows l"
      using assms rows by (simp add: mult_left_mono)
    moreover have "int (length ?p) \<le> lcd_columns l * 2"
      using assms by simp
    ultimately have fits: "int (length ?p) \<le> lcd_columns l * lcd_rows l"
      by linarith
    from fits ret show ?thesis
      by (rule display_whole)
  qed
  from eq len wire show ?thesis
    by auto
qed

text \<open>With four columns and two rows, \<^verbatim>\<open>display_lines("AB", "CD")\<close> writes \<^verbatim>\<open>"AB  CD"\<close>.\<close>

theorem display_lines_payload_witness:
  "0 \<le> lcd_columns (new_lcd 0x72 4 2) \<and> 2 \<le> lcd_rows (new_lcd 0x72 4 2) \<and>
   (\<exists>r. next_reply (constructed (always ack)) = Inr r) \<and>
   wire (world_of (display_lines (new_lcd 0x72 4 2) (constructed (always ack)) ''AB'' ''CD'')) =
     [(0x72, Bytes [0x7C, 0x2D]), (0x72, Text ''AB  CD'')]"
proof -
  have c: "0 \<le> lcd_columns (new_lcd 0x72 4 2)"
    by simp
  have r: "2 \<le> lcd_rows (new_lcd 0x72 4 2)"
    by simp
  have a: "\<exists>r. next_reply (constructed (always ack)) = Inr r"
    by simp
  show ?thesis
    using c r a display_lines_payload [OF c, of "constructed (always ack)" "''AB''" "''CD''"]
    by (auto simp: numeral_2_eq_2)
qed

text \<open>
  Claim C10. On a handle with one row, \<^verbatim>\<open>display\<close> keeps \<open>columns * 1\<close> characters of
  what \<^verbatim>\<open>display_lines\<close> hands it, and that is the padded first line: after the clear
  command the only text written is the first line cut and filled to \<open>columns\<close>
  characters (nothing at all when the clear command's write raises). No character of
  the second line reaches the wire.
\<close>

theorem display_lines_one_row:
  assumes "lcd_rows l = 1" and "0 \<le> lcd_columns l"
  shows "wire (world_of (display_lines l w first_line second_line)) =
           wire w @
           (address l, Bytes [0x7C, 0x2D]) #
           (case next_reply w of
              Inl e \<Rightarrow> []
            | Inr r \<Rightarrow>
                [(address l, Text
                    (take (nat (lcd_columns l)) first_line @
                     replicate (nat (lcd_columns l) - length first_line) (CHR '' '')))]) \<and>
         int (length (take (nat (lcd_columns l)) first_line @
                replicate (nat (lcd_columns l) - length first_line) (CHR '' ''))) = lcd_columns l"
  using assms
  by (auto simp: display_lines_eq display_eq py_slice_from_0 min_def split: sum.splits)

text \<open>With four columns and one row, \<^verbatim>\<open>display_lines("AB", "CD")\<close> writes \<^verbatim>\<open>"AB  "\<close> only.\<close>

theorem display_lines_one_row_witness:
  "lcd_rows (new_lcd 0x72 4 1) = 1 \<and> 0 \<le> lcd_columns (new_lcd 0x72 4 1) \<and>
   wire (world_of (display_lines (new_lcd 0x72 4 1) (constructed (always ack)) ''AB'' ''CD'')) =
     [(0x72, Bytes [0x7C, 0x2D]), (0x72, Text ''AB  '')]"
proof -
  have r: "lcd_rows (new_lcd 0x72 4 1) = 1"
    by simp
  have c: "0 \<le> lcd_columns (new_lcd 0x72 4 1)"
    by simp
  show ?thesis
    using r c display_lines_one_row [OF r c, of "constructed (always ack)" "''AB''" "''CD''"]
    by (simp add: numeral_2_eq_2)
qed

section \<open>Scrolling\<close>

text \<open>
  No call makes the index negative, so every handle that calls can reach has an index of
  0 or more.
\<close>

lemma invoke_index_nonneg:
  "0 \<le> index l \<Longrightarrow> 0 \<le> index (lcd_of (invoke c l w))"
  by (cases c)
    (simp_all add: method_defs send_commands_eq send_text_eq and_then_eq Let_def display_eq
      display_lines_def display_scrolling_def default_settings_def begin_lcd_def split_beta
      split: sum.splits)

lemma run_index_nonneg:
  "0 \<le> index l \<Longrightarrow> 0 \<le> index (fst (run cs l w))"
  by (induction cs arbitrary: l w) (simp_all add: invoke_index_nonneg)

text \<open>
  Ten due calls with a message of ten characters leave the index at 10, the clock at
  its 21st reading and twenty writes on the wire.
\<close>

lemma ten_steps_handle:
  "fst ten_steps = at_index ((new_lcd 0x72 3 1)\<lparr>last_refreshed := 20000\<rparr>) 10"
  by (simp add: ten_steps_def eval_nat_numeral display_scrolling_def display_eq visible_message_def
      ticks_diff_def py_slice_def clip_bound_def split_beta new_lcd_eq constructed_eq at_index_def
      next_reply_def written_def ticks_ms_def sleep_def)

lemma ten_steps_world:
  "replies (snd ten_steps) = always (Inr (PyInt 1)) \<and> ticks (snd ten_steps) = steady_clock \<and>
   reads (snd ten_steps) = 21 \<and> length (wire (snd ten_steps)) = 20"
  by (simp add: ten_steps_def eval_nat_numeral display_scrolling_def display_eq visible_message_def
      ticks_diff_def py_slice_def clip_bound_def split_beta new_lcd_eq constructed_eq
      next_reply_def written_def ticks_ms_def sleep_def)

lemma ten_steps_simps [simp]:
  "address (fst ten_steps) = 0x72"
  "lcd_columns (fst ten_steps) = 3"
  "lcd_rows (fst ten_steps) = 1"
  "last_refreshed (fst ten_steps) = 20000"
  "index (fst ten_steps) = 10"
  "replies (snd ten_steps) k = Inr (PyInt 1)"
  "ticks (snd ten_steps) = steady_clock"
  "reads (snd ten_steps) = 21"
  "next_reply (snd ten_steps) = Inr (PyInt 1)"
  by (simp_all add: ten_steps_handle ten_steps_world next_reply_def)

text \<open>The composed window in the words of the two slices, and a due call in full.\<close>

lemma visible_message_slices:
  "visible_message l message =
     py_slice message (index l) (index l + lcd_columns l * lcd_rows l) @
     (if index l + lcd_columns l * lcd_rows l > int (length message)
      then py_slice message 0 (index l + lcd_columns l * lcd_rows l - int (length message))
      else [])"
  by (simp add: visible_message_def Let_def add.commute)

lemma display_scrolling_returned:
  assumes due: "ticks_diff (ticks w (reads w)) (last_refreshed l) > duration"
    and returns: "next_reply w = Inr r" "replies w (Suc (length (wire w))) = Inr r'"
  shows "display_scrolling l w message duration =
          (Inr PyNone,
           l\<lparr>last_refreshed := ticks w (Suc (reads w)),
             index := (if index l + 1 > int (length message) then 0 else index l + 1)\<rparr>,
           snd (ticks_ms (written (written (snd (ticks_ms w)) (address l) (Bytes [0x7C, 0x2D]))
                  (address l)
                  (Text (py_slice (visible_message l message) 0
                           (lcd_columns l * lcd_rows l))))))"
  using assms by (simp add: display_scrolling_def display_eq split_beta Let_def)

lemma display_scrolling_raising:
  assumes due: "ticks_diff (ticks w (reads w)) (last_refreshed l) > duration"
    and raises: "next_reply w = Inl e \<or>
                 ((\<exists>r. next_reply w = Inr r) \<and> replies w (Suc (length (wire w))) = Inl e)"
  shows "result_of (display_scrolling l w message duration) = Inl e \<and>
         lcd_of (display_scrolling l w message duration) = l"
  using assms by (auto simp: display_scrolling_def display_eq split_beta Let_def)

text \<open>
  Claim C3, as amended. The claim says that in every due call the displayed window is
  the concatenation of the two slices and that the index and the last-refresh time move
  on. Two things stand against it. \<^verbatim>\<open>display\<close> keeps only the slice
  \<^verbatim>\<open>[0 : columns*rows]\<close> of what it is given, and the index can have been left beyond
  the length of the message by a longer message scrolled before, so the concatenation
  can be longer than that. And a write that raises ends the call before the index and
  the time are assigned. What holds, for every due call:
  \<^item> when the two writes return, the text written after the clear command is the slice
    \<^verbatim>\<open>[0 : columns*rows]\<close> of \<^verbatim>\<open>message[index : index + columns*rows]\<close> followed,
    when \<open>index + columns*rows\<close> exceeds the length of the message, by
    \<^verbatim>\<open>message[0 : index + columns*rows - len(message)]\<close>; afterwards the index is one
    more, or 0 when one more would exceed the length of the message (so it is in
    \<open>[0, len(message)]\<close> when it was not negative), and \<^verbatim>\<open>last_refreshed\<close> is the clock
    as read after the two writes;
  \<^item> that slice is the first \<open>columns * rows\<close> characters when \<open>columns * rows\<close> is not
    negative, and the whole concatenation when moreover the index is within
    \<open>[0, len(message)]\<close>, as it is while one message is scrolled
    (\<open>display_scrolling_index_bounds\<close>);
  \<^item> when one of the two writes raises, the exception reaches the caller and the handle
    is as it was.
\<close>

theorem display_scrolling_due:
  assumes due: "ticks_diff (ticks w (reads w)) (last_refreshed l) > duration"
  shows "(\<forall>r r'. next_reply w = Inr r \<and> replies w (Suc (length (wire w))) = Inr r' \<longrightarrow>
            result_of (display_scrolling l w message duration) = Inr PyNone \<and>
            wire (world_of (display_scrolling l w message duration)) =
              wire w @
              [(address l, Bytes [0x7C, 0x2D]),
               (address l, Text
                  (py_slice
                     (py_slice message (index l) (index l + lcd_columns l * lcd_rows l) @
                      (if index l + lcd_columns l * lcd_rows l > int (length message)
                       then py_slice message 0
                              (index l + lcd_columns l * lcd_rows l - int (length message))
                       else []))
                     0 (lcd_columns l * lcd_rows l)))] \<and>
            index (lcd_of (display_scrolling l w message duration)) =
              (if index l + 1 > int (length message) then 0 else index l + 1) \<and>
            (0 \<le> index l \<longrightarrow>
               0 \<le> index (lcd_of (display_scrolling l w message duration)) \<and>
               index (lcd_of (display_scrolling l w message duration)) \<le> int (length message)) \<and>
            last_refreshed (lcd_of (display_scrolling l w message duration)) =
              ticks w (Suc (reads w))) \<and>
         (0 \<le> lcd_columns l * lcd_rows l \<longrightarrow>
            py_slice
              (py_slice message (index l) (index l + lcd_columns l * lcd_rows l) @
               (if index l + lcd_columns l * lcd_rows l > int (length message)
                then py_slice message 0
                       (index l + lcd_columns l * lcd_rows l - int (length message))
                else []))
              0 (lcd_columns l * lcd_rows l) =
            take (nat (lcd_columns l * lcd_rows l))
              (py_slice message (index l) (index l + lcd_columns l * lcd_rows l) @
               (if index l + lcd_columns l * lcd_rows l > int (length message)
                then py_slice message 0
                       (index l + lcd_columns l * lcd_rows l - int (length message))
                else []))) \<and>
         (0 \<le> index l \<and> index l \<le> int (length message) \<and>
          0 \<le> lcd_columns l * lcd_rows l \<longrightarrow>
            py_slice
              (py_slice message (index l) (index l + lcd_columns l * lcd_rows l) @
               (if index l + lcd_columns l * lcd_rows l > int (length message)
                then py_slice message 0
                       (index l + lcd_columns l * lcd_rows l - int (length message))
                else []))
              0 (lcd_columns l * lcd_rows l) =
            py_slice message (index l) (index l + lcd_columns l * lcd_rows l) @
            (if index l + lcd_columns l * lcd_rows l > int (length message)
             then py_slice message 0
                    (index l + lcd_columns l * lcd_rows l - int (length message))
             else [])) \<and>
         (\<forall>e. next_reply w = Inl e \<or>
              ((\<exists>r. next_reply w = Inr r) \<and> replies w (Suc (length (wire w))) = Inl e) \<longrightarrow>
            result_of (display_scrolling l w message duration) = Inl e \<and>
            lcd_of (display_scrolling l w message duration) = l)"
proof -
  let ?W = "lcd_columns l * lcd_rows l"
  let ?v = "py_slice message (index l) (index l + ?W) @
            (if index l + ?W > int (length message)
             then py_slice message 0 (index l + ?W - int (length message))
             else [])"
  have v: "visible_message l message = ?v"
    by (rule visible_message_slices)
  have a: "result_of (display_scrolling l w message duration) = Inr PyNone \<and>
           wire (world_of (display_scrolling l w message duration)) =
             wire w @ [(address l, Bytes [0x7C, 0x2D]), (address l, Text (py_slice ?v 0 ?W))] \<and>
           index (lcd_of (display_scrolling l w message duration)) =
             (if index l + 1 > int (length message) then 0 else index l + 1) \<and>
           (0 \<le> index l \<longrightarrow>
              0 \<le> index (lcd_of (display_scrolling l w message duration)) \<and>
              index (lcd_of (display_scrolling l w message duration)) \<le> int (length message)) \<and>
           last_refreshed (lcd_of (display_scrolling l w message duration)) =
             ticks w (Suc (reads w))"
    if "next_reply w = Inr r" "replies w (Suc (length (wire w))) = Inr r'" for r r'
    using display_scrolling_returned [OF due that, of message] by (simp add: v)
  have b: "py_slice ?v 0 ?W = take (nat ?W) ?v" if "0 \<le> ?W"
    using that by (rule py_slice_from_0)
  have c: "py_slice ?v 0 ?W = ?v" if "0 \<le> index l" "index l \<le> int (length message)" "0 \<le> ?W"
  proof -
    have "int (length (visible_message l message)) \<le> ?W"
      using that by (rule length_visible_message_le)
    then have "take (nat ?W) ?v = ?v"
      unfolding v by (intro take_all) linarith
    with b [OF that(3)] show ?thesis by simp
  qed
  have d: "result_of (display_scrolling l w message duration) = Inl e \<and>
           lcd_of (display_scrolling l w message duration) = l"
    if "next_reply w = Inl e \<or>
        ((\<exists>r. next_reply w = Inr r) \<and> replies w (Suc (length (wire w))) = Inl e)" for e
    using due that by (rule display_scrolling_raising)
  from a b c d show ?thesis
    by blast
qed

text \<open>
  The message \<^verbatim>\<open>"ABCDE"\<close> on a display of three columns and one row, at index 4:
  with writes that return, the window is \<^verbatim>\<open>"E"\<close> and then \<^verbatim>\<open>"AB"\<close> and the index goes
  to 5; with a write that raises, the handle stays as it is.
\<close>

theorem display_scrolling_due_witness:
  "ticks_diff (ticks (constructed (always ack)) (reads (constructed (always ack))))
     (last_refreshed (at_index (new_lcd 0x72 3 1) 4)) > 300 \<and>
   next_reply (constructed (always ack)) = Inr (PyInt 1) \<and>
   replies (constructed (always ack)) (Suc (length (wire (constructed (always ack))))) =
     Inr (PyInt 1) \<and>
   0 \<le> index (at_index (new_lcd 0x72 3 1) 4) \<and>
   index (at_index (new_lcd 0x72 3 1) 4) \<le> int (length ''ABCDE'') \<and>
   0 \<le> lcd_columns (at_index (new_lcd 0x72 3 1) 4) * lcd_rows (at_index (new_lcd 0x72 3 1) 4) \<and>
   wire (world_of (display_scrolling (at_index (new_lcd 0x72 3 1) 4) (constructed (always ack))
           ''ABCDE'' 300)) =
     [(0x72, Bytes [0x7C, 0x2D]), (0x72, Text ''EAB'')] \<and>
   index (lcd_of (display_scrolling (at_index (new_lcd 0x72 3 1) 4) (constructed (always ack))
           ''ABCDE'' 300)) = 5 \<and>
   last_refreshed (lcd_of (display_scrolling (at_index (new_lcd 0x72 3 1) 4)
           (constructed (always ack)) ''ABCDE'' 300)) = 2000 \<and>
   next_reply (constructed (always enodev)) = Inl (OSError 19) \<and>
   result_of (display_scrolling (at_index (new_lcd 0x72 3 1) 4) (constructed (always enodev))
           ''ABCDE'' 300) = Inl (OSError 19) \<and>
   lcd_of (display_scrolling (at_index (new_lcd 0x72 3 1) 4) (constructed (always enodev))
           ''ABCDE'' 300) = at_index (new_lcd 0x72 3 1) 4"
proof -
  let ?l = "at_index (new_lcd 0x72 3 1) 4" and ?w = "constructed (always ack)"
    and ?e = "constructed (always enodev)"
  have due: "ticks_diff (ticks ?w (reads ?w)) (last_refreshed ?l) > 300"
    by (simp add: ticks_diff_def)
  have due': "ticks_diff (ticks ?e (reads ?e)) (last_refreshed ?l) > 300"
    by (simp add: ticks_diff_def)
  have r: "next_reply ?w = Inr (PyInt 1) \<and> replies ?w (Suc (length (wire ?w))) = Inr (PyInt 1)"
    by simp
  have i: "0 \<le> index ?l \<and> index ?l \<le> int (length ''ABCDE'') \<and>
           0 \<le> lcd_columns ?l * lcd_rows ?l"
    by simp
  have x: "next_reply ?e = Inl (OSError 19)"
    by simp
  from display_scrolling_due [OF due, of "''ABCDE''"] r
  have c1: "wire (world_of (display_scrolling ?l ?w ''ABCDE'' 300)) =
              wire ?w @
              [(address ?l, Bytes [0x7C, 0x2D]),
               (address ?l, Text
                  (py_slice
                     (py_slice ''ABCDE'' (index ?l) (index ?l + lcd_columns ?l * lcd_rows ?l) @
                      (if index ?l + lcd_columns ?l * lcd_rows ?l > int (length ''ABCDE'')
                       then py_slice ''ABCDE'' 0
                              (index ?l + lcd_columns ?l * lcd_rows ?l - int (length ''ABCDE''))
                       else []))
                     0 (lcd_columns ?l * lcd_rows ?l)))] \<and>
            index (lcd_of (display_scrolling ?l ?w ''ABCDE'' 300)) =
              (if index ?l + 1 > int (length ''ABCDE'') then 0 else index ?l + 1) \<and>
            last_refreshed (lcd_of (display_scrolling ?l ?w ''ABCDE'' 300)) =
              ticks ?w (Suc (reads ?w))"
    by blast
  from display_scrolling_due [OF due', of "''ABCDE''"] x
  have c2: "result_of (display_scrolling ?l ?e ''ABCDE'' 300) = Inl (OSError 19) \<and>
            lcd_of (display_scrolling ?l ?e ''ABCDE'' 300) = ?l"
    by blast
  from due r i x c1 c2 show ?thesis
    by (simp add: py_slice_def clip_bound_def)
qed

text \<open>
  The claim as stated fails: after ten due calls with \<^verbatim>\<open>"0123456789"\<close> on a three by
  one display the index is 10; the next due call, with \<^verbatim>\<open>"ABCDE"\<close>, composes the
  empty slice and then \<^verbatim>\<open>"ABCDE"\<close>, and writes \<^verbatim>\<open>"ABC"\<close>. And a due call whose first
  write raises leaves the index at 0 and the last-refresh time at 0.
\<close>

theorem display_scrolling_due_counterexample:
  "index (fst ten_steps) = 10 \<and>
   lcd_columns (fst ten_steps) * lcd_rows (fst ten_steps) = 3 \<and>
   ticks_diff (ticks (snd ten_steps) (reads (snd ten_steps))) (last_refreshed (fst ten_steps)) > 300 \<and>
   py_slice ''ABCDE'' 10 (10 + 3) @ py_slice ''ABCDE'' 0 (10 + 3 - 5) = ''ABCDE'' \<and>
   wire (world_of (display_scrolling (fst ten_steps) (snd ten_steps) ''ABCDE'' 300)) =
     wire (snd ten_steps) @ [(0x72, Bytes [0x7C, 0x2D]), (0x72, Text ''ABC'')] \<and>
   ticks_diff (ticks (constructed (always enodev)) (reads (constructed (always enodev))))
     (last_refreshed (new_lcd 0x72 3 1)) > 300 \<and>
   index (new_lcd 0x72 3 1) = 0 \<and>
   index (lcd_of (display_scrolling (new_lcd 0x72 3 1) (constructed (always enodev))
            ''ABCDE'' 300)) = 0 \<and>
   last_refreshed (new_lcd 0x72 3 1) = 0 \<and>
   last_refreshed (lcd_of (display_scrolling (new_lcd 0x72 3 1) (constructed (always enodev))
            ''ABCDE'' 300)) = 0"
  by (simp add: display_scrolling_def display_eq visible_message_def ticks_diff_def
      py_slice_def clip_bound_def split_beta)

text \<open>
  Claim C4, as amended. The claim says that the window has \<open>columns * rows\<close>
  characters for every message and every reachable index. The second slice is taken
  once from the start of the message, so a short message cannot fill the window, and
  at an index beyond the length of the message the composed window is longer than
  \<open>columns * rows\<close>. What holds for every message, on a handle with an index of 0 or
  more (every reachable one, \<open>run_index_nonneg\<close>) and a \<open>columns * rows\<close> that is not
  negative: the composed window has \<open>min (columns * rows) (2 * len(message) - index)\<close>
  characters when the index is at most \<open>len(message)\<close> and
  \<open>min (columns * rows + index - len(message)) (len(message))\<close> characters when it is
  larger; its first \<open>columns * rows\<close> characters, which are what a due call whose
  writes return puts on the wire, are
  \<open>min (columns * rows) (2 * len(message) - index)\<close> characters in the first case and
  \<open>min (columns * rows) (len(message))\<close> in the second: never more than
  \<open>columns * rows\<close>, exactly \<open>columns * rows\<close> when the message has at least that many
  characters, and the composed window itself when the index is at most \<open>len(message)\<close>.
\<close>

theorem window_length:
  assumes idx: "0 \<le> index l"
    and size: "0 \<le> lcd_columns l * lcd_rows l"
  shows "int (length (visible_message l message)) =
           (if index l \<le> int (length message)
            then min (lcd_columns l * lcd_rows l) (2 * int (length message) - index l)
            else min (lcd_columns l * lcd_rows l + index l - int (length message))
                   (int (length message))) \<and>
         int (length (take (nat (lcd_columns l * lcd_rows l)) (visible_message l message))) =
           (if index l \<le> int (length message)
            then min (lcd_columns l * lcd_rows l) (2 * int (length message) - index l)
            else min (lcd_columns l * lcd_rows l) (int (length message))) \<and>
         int (length (take (nat (lcd_columns l * lcd_rows l)) (visible_message l message))) \<le>
           lcd_columns l * lcd_rows l \<and>
         (lcd_columns l * lcd_rows l \<le> int (length message) \<longrightarrow>
            int (length (take (nat (lcd_columns l * lcd_rows l)) (visible_message l message))) =
              lcd_columns l * lcd_rows l) \<and>
         (index l \<le> int (length message) \<longrightarrow>
            take (nat (lcd_columns l * lcd_rows l)) (visible_message l message) =
              visible_message l message) \<and>
         (\<forall>r r'. ticks_diff (ticks w (reads w)) (last_refreshed l) > duration \<and>
            next_reply w = Inr r \<and> replies w (Suc (length (wire w))) = Inr r' \<longrightarrow>
            wire (world_of (display_scrolling l w message duration)) =
              wire w @
              [(address l, Bytes [0x7C, 0x2D]),
               (address l, Text
                  (take (nat (lcd_columns l * lcd_rows l)) (visible_message l message)))])"
proof -
  let ?W = "lcd_columns l * lcd_rows l"
  let ?t = "take (nat ?W) (visible_message l message)"
  have composed: "int (length (visible_message l message)) =
           (if index l \<le> int (length message)
            then min ?W (2 * int (length message) - index l)
            else min (?W + index l - int (length message)) (int (length message)))"
    using idx size by (rule length_visible_message_exact)
  have len: "int (length ?t) =
               (if index l \<le> int (length message)
                then min ?W (2 * int (length message) - index l)
                else min ?W (int (length message)))"
    using idx size by (rule length_written_window)
  have le: "int (length ?t) \<le> ?W"
    unfolding len by simp
  have full: "int (length ?t) = ?W" if "?W \<le> int (length message)"
    unfolding len using that idx by (auto simp: min_def)
  have whole: "?t = visible_message l message" if "index l \<le> int (length message)"
  proof -
    have "int (length (visible_message l message)) \<le> ?W"
      using idx that size by (rule length_visible_message_le)
    then show ?thesis
      by (intro take_all) linarith
  qed
  have wire: "wire (world_of (display_scrolling l w message duration)) =
                wire w @ [(address l, Bytes [0x7C, 0x2D]), (address l, Text ?t)]"
    if "ticks_diff (ticks w (reads w)) (last_refreshed l) > duration"
      "next_reply w = Inr r" "replies w (Suc (length (wire w))) = Inr r'" for r r'
    by (simp add: display_scrolling_when_due [OF that(1) size that(2,3)])
  from composed len le full whole wire show ?thesis
    by blast
qed

text \<open>The message \<^verbatim>\<open>"ABCDE"\<close> again, at index 4 of a three by one display: three characters.\<close>

theorem window_length_witness:
  "0 \<le> index (at_index (new_lcd 0x72 3 1) 4) \<and>
   0 \<le> lcd_columns (at_index (new_lcd 0x72 3 1) 4) * lcd_rows (at_index (new_lcd 0x72 3 1) 4) \<and>
   lcd_columns (at_index (new_lcd 0x72 3 1) 4) * lcd_rows (at_index (new_lcd 0x72 3 1) 4) \<le>
     int (length ''ABCDE'') \<and>
   index (at_index (new_lcd 0x72 3 1) 4) \<le> int (length ''ABCDE'') \<and>
   ticks_diff (ticks (constructed (always ack)) (reads (constructed (always ack))))
     (last_refreshed (at_index (new_lcd 0x72 3 1) 4)) > 300 \<and>
   next_reply (constructed (always ack)) = Inr (PyInt 1) \<and>
   replies (constructed (always ack)) (Suc (length (wire (constructed (always ack))))) =
     Inr (PyInt 1) \<and>
   wire (world_of (display_scrolling (at_index (new_lcd 0x72 3 1) 4) (constructed (always ack))
           ''ABCDE'' 300)) =
     [(0x72, Bytes [0x7C, 0x2D]), (0x72, Text ''EAB'')] \<and>
   visible_message (at_index (new_lcd 0x72 3 1) 4) ''ABCDE'' = ''EAB'' \<and>
   int (length ''EAB'') = 3"
proof -
  let ?l = "at_index (new_lcd 0x72 3 1) 4" and ?w = "constructed (always ack)"
  have i0: "0 \<le> index ?l"
    by simp
  have sz: "0 \<le> lcd_columns ?l * lcd_rows ?l"
    by simp
  have fits: "lcd_columns ?l * lcd_rows ?l \<le> int (length ''ABCDE'')"
    by simp
  have i1: "index ?l \<le> int (length ''ABCDE'')"
    by simp
  have d: "ticks_diff (ticks ?w (reads ?w)) (last_refreshed ?l) > 300 \<and>
           next_reply ?w = Inr (PyInt 1) \<and> replies ?w (Suc (length (wire ?w))) = Inr (PyInt 1)"
    by (simp add: ticks_diff_def)
  from window_length [OF i0 sz, where message = "''ABCDE''" and w = ?w and duration = 300]
    d fits i1
  have c: "wire (world_of (display_scrolling ?l ?w ''ABCDE'' 300)) =
             wire ?w @
             [(address ?l, Bytes [0x7C, 0x2D]),
              (address ?l, Text
                 (take (nat (lcd_columns ?l * lcd_rows ?l)) (visible_message ?l ''ABCDE'')))] \<and>
           int (length (take (nat (lcd_columns ?l * lcd_rows ?l)) (visible_message ?l ''ABCDE''))) =
             lcd_columns ?l * lcd_rows ?l \<and>
           take (nat (lcd_columns ?l * lcd_rows ?l)) (visible_message ?l ''ABCDE'') =
             visible_message ?l ''ABCDE''"
    by blast
  from i0 sz fits i1 d c show ?thesis
    by (simp add: visible_message_def py_slice_def clip_bound_def)
qed

text \<open>
  The claim as stated fails twice: the first due call with the message \<^verbatim>\<open>"Hi"\<close> on
  the 16 by 2 handle writes the four characters \<^verbatim>\<open>"HiHi"\<close>, not 32; and at index 10,
  reached by ten due calls, the window composed from \<^verbatim>\<open>"ABCDE"\<close> on a three by one
  display has five characters, not 3.
\<close>

theorem window_length_counterexample:
  "wire (world_of (display_scrolling (new_lcd 0x72 16 2) (constructed (always ack)) ''Hi'' 300)) =
     [(0x72, Bytes [0x7C, 0x2D]), (0x72, Text ''HiHi'')] \<and>
   length ''HiHi'' = 4 \<and>
   lcd_columns (new_lcd 0x72 16 2) * lcd_rows (new_lcd 0x72 16 2) = 32 \<and>
   index (fst ten_steps) = 10 \<and>
   visible_message (fst ten_steps) ''ABCDE'' = ''ABCDE'' \<and>
   length ''ABCDE'' = 5 \<and>
   lcd_columns (fst ten_steps) * lcd_rows (fst ten_steps) = 3"
  by (simp add: display_scrolling_def display_eq visible_message_def ticks_diff_def
      py_slice_def clip_bound_def split_beta)


section \<open>Moving the cursor\<close>

lemma word_of_int_OR: "(word_of_int (a OR b) :: 8 word) = word_of_int a OR word_of_int b"
  by (simp add: of_int_or_eq)

text \<open>
  Claim C6. For every column and every row, \<^verbatim>\<open>set_cursor(col, row)\<close> makes one write,
  of the two bytes \<open>0xFE\<close> and \<open>0x80 | (col + offset)\<close> (the low eight bits of it, as a
  byte array holds them), where the offset is \<open>0x00\<close>, \<open>0x40\<close>, \<open>0x14\<close>, \<open>0x54\<close> for
  the row clamped into \<open>[0, 3]\<close>. The column enters the sum as it is given. A row of -1
  does what row 0 does, and a row of 4 what row 3 does.
\<close>

theorem set_cursor_sends:
  "result_of (set_cursor l w col row) = next_reply w \<and>
   lcd_of (set_cursor l w col row) = l \<and>
   wire (world_of (set_cursor l w col row)) =
     wire w @
     [(address l, Bytes
         [0xFE,
          0x80 OR word_of_int
            (col + (if row \<le> 0 then 0x00 else if row = 1 then 0x40
                    else if row = 2 then 0x14 else 0x54))])] \<and>
   set_cursor l w col row = set_cursor l w col (min (max 0 row) 3) \<and>
   set_cursor l w col (- 1) = set_cursor l w col 0 \<and>
   set_cursor l w col 4 = set_cursor l w col 3"
proof -
  have "row \<le> 0 \<or> row = 1 \<or> row = 2 \<or> 3 \<le> row"
    by arith
  then show ?thesis
    by (auto simp: set_cursor_def send_commands_eq bytearray_def row_offsets_def command_defs
        Let_def max_def min_def numeral_2_eq_2 numeral_3_eq_3 word_of_int_OR)
qed

section \<open>What a call returns, and what a failed write leaves behind\<close>

lemma single_write_result:
  "single_write c \<Longrightarrow> result_of (invoke c l w) = next_reply w"
  by (cases c)
    (simp_all add: method_defs send_commands_eq send_text_eq and_then_eq Let_def
      split: sum.splits)

lemma single_write_wire:
  "single_write c \<Longrightarrow> length (wire (world_of (invoke c l w))) = Suc (length (wire w))"
  by (cases c)
    (simp_all add: method_defs send_commands_eq send_text_eq and_then_eq Let_def
      split: sum.splits)

lemma single_write_scroll_state:
  "single_write c \<Longrightarrow>
     index (lcd_of (invoke c l w)) = index l \<and>
     last_refreshed (lcd_of (invoke c l w)) = last_refreshed l"
  by (cases c)
    (simp_all add: method_defs send_commands_eq send_text_eq and_then_eq Let_def
      split: sum.splits)

lemma single_write_displayControl:
  "single_write c \<Longrightarrow>
     displayControl (lcd_of (invoke c l w)) = toggle_bits c (displayControl l)"
  by (cases c)
    (simp_all add: method_defs send_commands_eq send_text_eq and_then_eq Let_def
      split: sum.splits)

lemma toggle_bits_other: "\<not> is_toggle c \<Longrightarrow> toggle_bits c dc = dc"
  by (cases c) simp_all

lemma composite_result:
  assumes "\<not> single_write c" "c \<noteq> Begin" "result_of (invoke c l w) = Inr v"
  shows "v = PyNone"
  using assms
  by (cases c)
    (simp_all add: display_eq display_lines_def display_scrolling_def default_settings_def
      method_defs send_commands_eq and_then_eq Let_def split_beta
      split: sum.splits if_splits)

text \<open>
  A write that raises ends every method with its exception: each method is a chain of
  writes in which nothing catches.
\<close>

lemma orderly_send_commands: "orderly w (send_commands l w block)"
  by (auto simp: orderly_def made_def send_commands_eq next_reply_def less_Suc_eq_le)

lemma orderly_send_text: "orderly w (send_text l w text)"
  by (auto simp: orderly_def made_def send_text_eq next_reply_def less_Suc_eq_le)

lemma orderly_pure:
  "wire w' = wire w \<Longrightarrow> replies w' = replies w \<Longrightarrow> orderly w (r, l, w')"
  by (auto simp: orderly_def made_def)

lemma orderly_start:
  "wire w0 = wire w \<Longrightarrow> replies w0 = replies w \<Longrightarrow> orderly w0 m \<Longrightarrow> orderly w m"
  by (simp add: orderly_def made_def)

lemma orderly_and_then:
  assumes m: "orderly w m"
    and f: "\<And>v l' w'. m = (Inr v, l', w') \<Longrightarrow> orderly w' (f v l' w')"
  shows "orderly w (and_then m f)"
proof (cases m)
  case (fields r l' w')
  show ?thesis
  proof (cases r)
    case (Inl e)
    with fields m show ?thesis by (simp add: orderly_def made_def)
  next
    case (Inr v)
    with fields have eq: "m = (Inr v, l', w')" by simp
    from f [OF eq] have o2: "orderly w' (f v l' w')" .
    from m eq have o1: "replies w' = replies w" "length (wire w) \<le> length (wire w')"
      "\<forall>k e. length (wire w) \<le> k \<and> k < length (wire w') \<longrightarrow> replies w k \<noteq> Inl e"
      by (auto simp: orderly_def made_def)
    from o1 o2 show ?thesis
      unfolding eq and_then_Inr orderly_def made_def
      by (metis (no_types, lifting) le_trans not_le_imp_less)
  qed
qed

lemma orderly_display: "orderly w (display l w message)"
  unfolding display_def
  by (intro orderly_and_then orderly_send_commands orderly_send_text orderly_pure refl)

lemma orderly_set_address: "orderly w (set_address l w a)"
  unfolding set_address_def Let_def
  by (intro orderly_and_then orderly_send_commands orderly_pure) simp_all

lemma orderly_begin: "orderly w (begin_lcd l w)"
  unfolding begin_lcd_def Let_def clear_display_def
  by (rule orderly_start [of "sleep 1000 w"])
    (simp_all add: orderly_and_then orderly_send_commands orderly_pure)

lemma orderly_toggles:
  "orderly w (enable_cursor l w)" "orderly w (disable_cursor l w)"
  "orderly w (enable_cursor_blink l w)" "orderly w (disable_cursor_blink l w)"
  "orderly w (enable_display l w)" "orderly w (disable_display l w)"
  by (simp_all add: method_defs Let_def orderly_send_commands)

lemma orderly_settings:
  "orderly w (clear_display l w)" "orderly w (set_contrast l w x)"
  "orderly w (set_rgb_backlight l w r g b)" "orderly w (set_cursor l w col row)"
  "orderly w (enable_system_messages l w)" "orderly w (disable_system_messages l w)"
  "orderly w (enable_splash l w)" "orderly w (disable_splash l w)" "orderly w (save_splash l w)"
  "orderly w (append_display l w message)"
  by (simp_all add: method_defs Let_def orderly_send_commands orderly_send_text)

lemma orderly_default_settings: "orderly w (default_settings l w)"
  unfolding default_settings_def
  by (intro orderly_and_then orderly_toggles orderly_settings orderly_pure refl)

lemma orderly_display_lines: "orderly w (display_lines l w a b)"
  by (simp add: display_lines_def Let_def orderly_display)

lemma orderly_display_scrolling: "orderly w (display_scrolling l w message duration)"
proof -
  have "orderly (snd (ticks_ms w)) (display_scrolling l w message duration)"
    unfolding display_scrolling_def split_beta Let_def
    by (auto intro!: orderly_and_then orderly_display orderly_pure)
  then show ?thesis
    by (rule orderly_start [rotated 2]) simp_all
qed

lemma invoke_orderly: "orderly w (invoke c l w)"
  by (cases c)
    (simp_all add: orderly_begin orderly_default_settings orderly_display
      orderly_display_lines orderly_display_scrolling orderly_toggles orderly_settings
      orderly_set_address)

lemma raise_reaches_caller:
  "made w (invoke c l w) k \<Longrightarrow> replies w k = Inl e \<Longrightarrow> result_of (invoke c l w) = Inl e"
  using invoke_orderly [of w c l] by (auto simp: orderly_def)

text \<open>What the methods with several writes do to the handle.\<close>

lemma begin_lcd_handle: "lcd_of (begin_lcd l w) = l"
  by (simp add: begin_lcd_def clear_display_def send_commands_eq and_then_eq Let_def
      split: sum.splits)

lemma display_handle: "lcd_of (display l w message) = l"
  by (simp add: display_eq split: sum.splits)

lemma display_lines_handle: "lcd_of (display_lines l w a b) = l"
  by (simp add: display_lines_def Let_def display_handle)

lemma default_settings_scroll_state:
  "index (lcd_of (default_settings l w)) = index l \<and>
   last_refreshed (lcd_of (default_settings l w)) = last_refreshed l"
  by (simp add: default_settings_def method_defs send_commands_eq and_then_eq Let_def
      split: sum.splits)

lemma display_scrolling_flags:
  "displayControl (lcd_of (display_scrolling l w message duration)) = displayControl l"
  by (simp add: display_scrolling_def display_eq split_beta Let_def split: sum.splits)

lemma display_scrolling_raised:
  "result_of (display_scrolling l w message duration) = Inl e \<Longrightarrow>
     lcd_of (display_scrolling l w message duration) = l"
  by (simp add: display_scrolling_def display_eq split_beta Let_def split: sum.splits if_splits)

lemma begin_reports:
  assumes "made w (begin_lcd l w) k" "failed (replies w k)"
  shows "failed (result_of (begin_lcd l w))"
proof -
  from assms(1) have k: "k = length (wire w) \<or> k = Suc (length (wire w)) \<or>
      k = Suc (Suc (length (wire w)))"
    by (auto simp: made_def begin_lcd_def clear_display_def send_commands_eq and_then_eq Let_def
        split: sum.splits)
  from assms(1) have
    k1: "k = Suc (length (wire w)) \<Longrightarrow> \<exists>v. replies w (length (wire w)) = Inr v" and
    k2: "k = Suc (Suc (length (wire w))) \<Longrightarrow>
           (\<exists>v. replies w (length (wire w)) = Inr v) \<and>
           (\<exists>v. replies w (Suc (length (wire w))) = Inr v)"
    by (auto simp: made_def begin_lcd_def clear_display_def send_commands_eq and_then_eq Let_def
        next_reply_def split: sum.splits)
  from k k1 k2 assms(2) show ?thesis
    by (auto simp: begin_lcd_def clear_display_def send_commands_eq and_then_eq Let_def
        next_reply_def split: sum.splits)
qed

lemma toggle_single_write: "is_toggle c \<Longrightarrow> single_write c"
  by (cases c) simp_all

lemma scroll_state_kept:
  assumes "\<And>message duration. c \<noteq> Display_scrolling message duration"
  shows "index (lcd_of (invoke c l w)) = index l \<and>
         last_refreshed (lcd_of (invoke c l w)) = last_refreshed l"
proof (cases "single_write c")
  case True
  then show ?thesis by (rule single_write_scroll_state)
next
  case False
  with assms show ?thesis
    by (cases c)
      (auto simp: begin_lcd_handle display_handle display_lines_handle
        default_settings_scroll_state)
qed

lemma flags_kept:
  assumes "\<not> is_toggle c" "c \<noteq> Default_settings"
  shows "displayControl (lcd_of (invoke c l w)) = displayControl l"
proof (cases "single_write c")
  case True
  with assms(1) show ?thesis
    by (simp add: single_write_displayControl toggle_bits_other)
next
  case False
  with assms show ?thesis
    by (cases c)
      (simp_all add: begin_lcd_handle display_handle display_lines_handle
        display_scrolling_flags)
qed

text \<open>
  Claim C9, as amended. The claim says that every public method but \<^verbatim>\<open>begin\<close> returns
  the result of its single write. Four more methods have no \<^verbatim>\<open>return\<close> statement and
  no single write: \<^verbatim>\<open>display\<close>, \<^verbatim>\<open>display_lines\<close>, \<^verbatim>\<open>display_scrolling\<close> and
  \<^verbatim>\<open>default_settings\<close>. What holds: every other public method makes exactly one
  write and ends as that write ended, returning what it returned or raising what it
  raised; those four return \<^verbatim>\<open>None\<close> whenever they return, and an exception raised
  by one of their writes reaches the caller unchanged.
\<close>

theorem returns_the_write_result:
  "(single_write c \<longrightarrow>
      result_of (invoke c l w) = next_reply w \<and>
      length (wire (world_of (invoke c l w))) = Suc (length (wire w))) \<and>
   (\<not> single_write c \<and> c \<noteq> Begin \<longrightarrow>
      (\<forall>v. result_of (invoke c l w) = Inr v \<longrightarrow> v = PyNone) \<and>
      (\<forall>k e. made w (invoke c l w) k \<and> replies w k = Inl e \<longrightarrow>
         result_of (invoke c l w) = Inl e))"
  using single_write_result [of c l w] single_write_wire [of c l w] composite_result [of c l w]
    raise_reaches_caller [of w c l]
  by blast

text \<open>
  The theorem at \<^verbatim>\<open>clear_display()\<close> and at \<^verbatim>\<open>display("Hello")\<close>, with writes that
  return 1 and with writes that raise.
\<close>

theorem returns_the_write_result_witness:
  "single_write Clear_display \<and>
   result_of (invoke Clear_display (new_lcd 0x72 16 2) (constructed (always ack))) =
     Inr (PyInt 1) \<and>
   length (wire (world_of (invoke Clear_display (new_lcd 0x72 16 2) (constructed (always ack))))) = 1 \<and>
   \<not> single_write (Display ''Hello'') \<and> Display ''Hello'' \<noteq> Begin \<and>
   result_of (invoke (Display ''Hello'') (new_lcd 0x72 16 2) (constructed (always ack))) =
     Inr PyNone \<and>
   made (constructed (always enodev))
     (invoke (Display ''Hello'') (new_lcd 0x72 16 2) (constructed (always enodev))) 0 \<and>
   replies (constructed (always enodev)) 0 = Inl (OSError 19) \<and>
   result_of (invoke (Display ''Hello'') (new_lcd 0x72 16 2) (constructed (always enodev))) =
     Inl (OSError 19)"
proof -
  let ?l = "new_lcd 0x72 16 2" and ?a = "constructed (always ack)"
    and ?e = "constructed (always enodev)"
  have s: "single_write Clear_display"
    by simp
  have n: "\<not> single_write (Display ''Hello'') \<and> Display ''Hello'' \<noteq> Begin"
    by simp
  have d: "result_of (invoke (Display ''Hello'') ?l ?a) = Inr PyNone"
    by (simp add: display_eq)
  have m: "made ?e (invoke (Display ''Hello'') ?l ?e) 0"
    by (simp add: made_def display_eq)
  have r: "replies ?e 0 = Inl (OSError 19)"
    by simp
  from returns_the_write_result [of Clear_display ?l ?a] s
  have c1: "result_of (invoke Clear_display ?l ?a) = next_reply ?a \<and>
            length (wire (world_of (invoke Clear_display ?l ?a))) = Suc (length (wire ?a))"
    by blast
  from returns_the_write_result [of "Display ''Hello''" ?l ?a] n d
  have c2: "result_of (invoke (Display ''Hello'') ?l ?a) = Inr PyNone"
    by blast
  from returns_the_write_result [of "Display ''Hello''" ?l ?e] n m r
  have c3: "result_of (invoke (Display ''Hello'') ?l ?e) = Inl (OSError 19)"
    by blast
  from s n m r c1 c2 c3 show ?thesis
    by simp
qed

text \<open>
  The claim as stated fails for each of the four: with every write returning 1,
  \<^verbatim>\<open>display("Hello")\<close> makes two writes and returns \<^verbatim>\<open>None\<close>, and so do
  \<^verbatim>\<open>display_lines\<close>, a due \<^verbatim>\<open>display_scrolling\<close> (two writes) and
  \<^verbatim>\<open>default_settings\<close> (eight writes).
\<close>

theorem returns_the_write_result_counterexample:
  "replies (constructed (always ack)) 0 = Inr (PyInt 1) \<and>
   replies (constructed (always ack)) 1 = Inr (PyInt 1) \<and>
   wire (world_of (invoke (Display ''Hello'') (new_lcd 0x72 16 2) (constructed (always ack)))) =
     [(0x72, Bytes [0x7C, 0x2D]), (0x72, Text ''Hello'')] \<and>
   result_of (invoke (Display ''Hello'') (new_lcd 0x72 16 2) (constructed (always ack))) =
     Inr PyNone \<and>
   result_of (invoke (Display_lines ''AB'' ''CD'') (new_lcd 0x72 16 2)
      (constructed (always ack))) = Inr PyNone \<and>
   result_of (invoke (Display_scrolling ''Hello'' 300) (new_lcd 0x72 16 2)
      (constructed (always ack))) = Inr PyNone \<and>
   length (wire (world_of (invoke (Display_scrolling ''Hello'' 300) (new_lcd 0x72 16 2)
      (constructed (always ack))))) = 2 \<and>
   result_of (invoke Default_settings (new_lcd 0x72 16 2) (constructed (always ack))) =
     Inr PyNone \<and>
   length (wire (world_of (invoke Default_settings (new_lcd 0x72 16 2)
      (constructed (always ack))))) = 8"
  by (simp add: default_settings_def method_defs send_commands_eq display_eq display_lines_def
      display_scrolling_def ticks_diff_def split_beta Let_def py_slice_from_0)

text \<open>
  Claim C2, as amended. The claim says that every public method hands a failed write to
  its caller and leaves the display state as it was. The code has no rollback and four
  methods without a \<^verbatim>\<open>return\<close> statement. What holds, for every public method and
  every transport:
  \<^item> a write that raises reaches the caller as the same exception;
  \<^item> a method that makes a single write returns what the write returned, a failure
    included, and \<^verbatim>\<open>begin\<close> ends with a failure (it returns 0 or raises) when one of
    its writes failed; \<^verbatim>\<open>display\<close>, \<^verbatim>\<open>display_lines\<close>, \<^verbatim>\<open>display_scrolling\<close> and
    \<^verbatim>\<open>default_settings\<close> return \<^verbatim>\<open>None\<close> whenever they return, so a failure that
    one of their writes returned is not handed on;
  \<^item> the scroll index and the last-refresh time are as they were after every method
    but \<^verbatim>\<open>display_scrolling\<close>, and after \<^verbatim>\<open>display_scrolling\<close> too when one of its
    writes raised;
  \<^item> the control flags are as they were after every method but the six toggles and
    \<^verbatim>\<open>default_settings\<close>; a toggle has set or cleared its flag before its write and
    keeps it so whatever the write did.
\<close>

theorem failed_write_state:
  "(\<forall>k e. made w (invoke c l w) k \<and> replies w k = Inl e \<longrightarrow>
      result_of (invoke c l w) = Inl e) \<and>
   (single_write c \<longrightarrow> result_of (invoke c l w) = next_reply w) \<and>
   (c = Begin \<longrightarrow>
      (\<forall>k. made w (invoke c l w) k \<and> failed (replies w k) \<longrightarrow>
         failed (result_of (invoke c l w)))) \<and>
   (\<not> single_write c \<and> c \<noteq> Begin \<longrightarrow>
      (\<forall>v. result_of (invoke c l w) = Inr v \<longrightarrow> v = PyNone)) \<and>
   ((\<forall>message duration. c \<noteq> Display_scrolling message duration) \<or>
    (\<exists>e. result_of (invoke c l w) = Inl e) \<longrightarrow>
      index (lcd_of (invoke c l w)) = index l \<and>
      last_refreshed (lcd_of (invoke c l w)) = last_refreshed l) \<and>
   (\<not> is_toggle c \<and> c \<noteq> Default_settings \<longrightarrow>
      displayControl (lcd_of (invoke c l w)) = displayControl l) \<and>
   (is_toggle c \<longrightarrow>
      displayControl (lcd_of (invoke c l w)) = toggle_bits c (displayControl l))"
proof -
  have a: "\<forall>k e. made w (invoke c l w) k \<and> replies w k = Inl e \<longrightarrow>
             result_of (invoke c l w) = Inl e"
    by (blast intro: raise_reaches_caller)
  have b: "single_write c \<longrightarrow> result_of (invoke c l w) = next_reply w"
    by (simp add: single_write_result)
  have c: "c = Begin \<longrightarrow>
             (\<forall>k. made w (invoke c l w) k \<and> failed (replies w k) \<longrightarrow>
                failed (result_of (invoke c l w)))"
    by (auto intro: begin_reports)
  have d: "index (lcd_of (invoke c l w)) = index l \<and>
           last_refreshed (lcd_of (invoke c l w)) = last_refreshed l"
    if "(\<forall>message duration. c \<noteq> Display_scrolling message duration) \<or>
        (\<exists>e. result_of (invoke c l w) = Inl e)"
  proof (cases "\<forall>message duration. c \<noteq> Display_scrolling message duration")
    case True
    then show ?thesis by (intro scroll_state_kept) simp
  next
    case False
    then obtain message duration where s: "c = Display_scrolling message duration"
      by blast
    with that obtain e where "result_of (display_scrolling l w message duration) = Inl e"
      by auto
    then have "lcd_of (display_scrolling l w message duration) = l"
      by (rule display_scrolling_raised)
    with s show ?thesis by simp
  qed
  have e: "\<not> is_toggle c \<and> c \<noteq> Default_settings \<longrightarrow>
             displayControl (lcd_of (invoke c l w)) = displayControl l"
    by (simp add: flags_kept)
  have f: "is_toggle c \<longrightarrow>
             displayControl (lcd_of (invoke c l w)) = toggle_bits c (displayControl l)"
    by (simp add: toggle_single_write single_write_displayControl)
  have g: "\<not> single_write c \<and> c \<noteq> Begin \<longrightarrow>
             (\<forall>v. result_of (invoke c l w) = Inr v \<longrightarrow> v = PyNone)"
    using composite_result [of c l w] by blast
  from a b c d e f g show ?thesis
    by blast
qed

text \<open>
  The theorem at \<^verbatim>\<open>display("Hello")\<close> with writes that raise, and at \<^verbatim>\<open>begin()\<close>,
  \<^verbatim>\<open>set_contrast(20)\<close> and \<^verbatim>\<open>enable_cursor()\<close> with writes that return the failure 0.
\<close>

theorem failed_write_state_witness:
  "made (constructed (always enodev))
     (invoke (Display ''Hello'') (new_lcd 0x72 16 2) (constructed (always enodev))) 0 \<and>
   replies (constructed (always enodev)) 0 = Inl (OSError 19) \<and>
   result_of (invoke (Display ''Hello'') (new_lcd 0x72 16 2) (constructed (always enodev))) =
     Inl (OSError 19) \<and>
   made (constructed (always nack))
     (invoke Begin (new_lcd 0x72 16 2) (constructed (always nack))) 0 \<and>
   failed (replies (constructed (always nack)) 0) \<and>
   failed (result_of (invoke Begin (new_lcd 0x72 16 2) (constructed (always nack)))) \<and>
   index (lcd_of (invoke Begin (new_lcd 0x72 16 2) (constructed (always nack)))) = 0 \<and>
   last_refreshed (lcd_of (invoke Begin (new_lcd 0x72 16 2) (constructed (always nack)))) = 0 \<and>
   displayControl (lcd_of (invoke Begin (new_lcd 0x72 16 2) (constructed (always nack)))) = 4 \<and>
   single_write (Set_contrast 20) \<and>
   result_of (invoke (Set_contrast 20) (new_lcd 0x72 16 2) (constructed (always nack))) =
     Inr (PyInt 0) \<and>
   is_toggle Enable_cursor \<and>
   displayControl (lcd_of (invoke Enable_cursor (new_lcd 0x72 16 2) (constructed (always nack)))) =
     6"
proof -
  let ?l = "new_lcd 0x72 16 2" and ?n = "constructed (always nack)"
    and ?e = "constructed (always enodev)"
  have m1: "made ?e (invoke (Display ''Hello'') ?l ?e) 0"
    by (simp add: made_def display_eq)
  have r1: "replies ?e 0 = Inl (OSError 19)"
    by simp
  have m2: "made ?n (invoke Begin ?l ?n) 0"
    by (simp add: made_def begin_lcd_def clear_display_def send_commands_eq)
  have r2: "failed (replies ?n 0)"
    by simp
  have nb: "\<not> is_toggle Begin \<and> Begin \<noteq> Default_settings \<and>
            (\<forall>message duration. Begin \<noteq> Display_scrolling message duration)"
    by simp
  have s3: "single_write (Set_contrast 20)"
    by simp
  have t4: "is_toggle Enable_cursor"
    by simp
  from failed_write_state [of ?e "Display ''Hello''" ?l] m1 r1
  have c1: "result_of (invoke (Display ''Hello'') ?l ?e) = Inl (OSError 19)"
    by blast
  from failed_write_state [of ?n Begin ?l] m2 r2 nb
  have c2: "failed (result_of (invoke Begin ?l ?n)) \<and>
            index (lcd_of (invoke Begin ?l ?n)) = index ?l \<and>
            last_refreshed (lcd_of (invoke Begin ?l ?n)) = last_refreshed ?l \<and>
            displayControl (lcd_of (invoke Begin ?l ?n)) = displayControl ?l"
    by blast
  from failed_write_state [of ?n "Set_contrast 20" ?l] s3
  have c3: "result_of (invoke (Set_contrast 20) ?l ?n) = next_reply ?n"
    by blast
  from failed_write_state [of ?n Enable_cursor ?l] t4
  have c4: "displayControl (lcd_of (invoke Enable_cursor ?l ?n)) =
              toggle_bits Enable_cursor (displayControl ?l)"
    by blast
  from m1 r1 m2 r2 s3 t4 c1 c2 c3 c4 show ?thesis
    by (simp add: LCD_CURSORON_def)
qed

text \<open>
  The claim as stated fails: \<^verbatim>\<open>enable_cursor()\<close> with a failing write, returned or
  raised, leaves the flags at 6 where they were 4; \<^verbatim>\<open>default_settings()\<close> with a first
  write that raises leaves them at 0; a due \<^verbatim>\<open>display_scrolling\<close> whose writes return
  the failure 0 moves the index from 0 to 1; and \<^verbatim>\<open>display\<close>, \<^verbatim>\<open>display_lines\<close>,
  \<^verbatim>\<open>display_scrolling\<close> and \<^verbatim>\<open>default_settings\<close> return \<^verbatim>\<open>None\<close>, not the failure 0
  that their writes returned; \<^verbatim>\<open>begin()\<close> returns 0 when its writes returned the
  failure \<^verbatim>\<open>None\<close>.
\<close>

theorem failed_write_state_counterexample:
  "failed (next_reply (constructed (always nack))) \<and>
   displayControl (new_lcd 0x72 16 2) = 4 \<and>
   displayControl
     (lcd_of (invoke Enable_cursor (new_lcd 0x72 16 2) (constructed (always nack)))) = 6 \<and>
   failed (next_reply (constructed (always enodev))) \<and>
   displayControl
     (lcd_of (invoke Enable_cursor (new_lcd 0x72 16 2) (constructed (always enodev)))) = 6 \<and>
   displayControl
     (lcd_of (invoke Default_settings (new_lcd 0x72 16 2) (constructed (always enodev)))) = 0 \<and>
   index (new_lcd 0x72 16 2) = 0 \<and>
   index (lcd_of (invoke (Display_scrolling ''Hello'' 300) (new_lcd 0x72 16 2)
            (constructed (always nack)))) = 1 \<and>
   result_of (invoke (Display_scrolling ''Hello'' 300) (new_lcd 0x72 16 2)
      (constructed (always nack))) = Inr PyNone \<and>
   result_of (invoke (Display ''Hello'') (new_lcd 0x72 16 2) (constructed (always nack))) =
     Inr PyNone \<and>
   result_of (invoke (Display_lines ''AB'' ''CD'') (new_lcd 0x72 16 2)
      (constructed (always nack))) = Inr PyNone \<and>
   result_of (invoke Default_settings (new_lcd 0x72 16 2) (constructed (always nack))) =
     Inr PyNone \<and>
   failed (next_reply (constructed (always (Inr PyNone)))) \<and>
   result_of (invoke Begin (new_lcd 0x72 16 2) (constructed (always (Inr PyNone)))) =
     Inr (PyInt 0)"
  by (simp add: enable_cursor_def disable_display_def default_settings_def method_defs
      begin_lcd_def displayMode_def
      send_commands_eq display_eq display_lines_def display_scrolling_def ticks_diff_def
      split_beta Let_def command_defs)


section \<open>The display-control toggles\<close>

lemma flags_bits_range: "0 \<le> flags_bits f \<and> flags_bits f \<le> 7"
  by (simp add: flags_bits_def)

text \<open>The bit operations of the code do to the bit field what a toggle does to the flags.\<close>

lemma toggle_bits_flags:
  "is_toggle c \<Longrightarrow> toggle_bits c (flags_bits f) = flags_bits (spec_toggle c f)"
  by (cases c; cases "display_on f"; cases "cursor_on f"; cases "blink_on f")
    (simp_all add: flags_bits_def command_defs)

lemma toggle_bits_idem: "toggle_bits c (toggle_bits c dc) = toggle_bits c dc"
  by (cases c) simp_all

lemma or_and_swap:
  fixes a m dc :: int
  assumes "a AND m = a"
  shows "(dc OR a) AND m = (dc AND m) OR a"
  using assms by (simp add: bit.conj_disj_distrib2)

lemma toggle_bits_commute:
  assumes "is_toggle c" "is_toggle c'" "flag_of c \<noteq> flag_of c'"
  shows "toggle_bits c (toggle_bits c' dc) = toggle_bits c' (toggle_bits c dc)"
  using assms
  by (cases c; cases c'; simp add: command_defs or_and_swap) (simp_all add: ac_simps)

lemma invoke_toggle:
  "is_toggle c \<Longrightarrow>
     invoke c l w =
       (next_reply w, l\<lparr>displayControl := toggle_bits c (displayControl l)\<rparr>,
        written w (address l)
          (Bytes [0xFE, 0x08 OR word_of_int (toggle_bits c (displayControl l))]))"
  by (cases c)
    (simp_all add: method_defs send_commands_eq bytearray_def Let_def of_int_or_eq
      SPECIAL_COMMAND_def LCD_DISPLAYCONTROL_def)

lemma run_toggles:
  assumes "list_all is_toggle cs" and "displayControl l = flags_bits f"
  shows "fst (run cs l w) = l\<lparr>displayControl := flags_bits (spec_flags f cs)\<rparr> \<and>
         wire (snd (run cs l w)) =
           wire w @ map (\<lambda>b. (address l, Bytes [0xFE, 0x08 OR word_of_int b])) (spec_sent f cs)"
  using assms
proof (induction cs arbitrary: l w f)
  case Nil
  then show ?case by simp
next
  case (Cons c cs)
  let ?l = "l\<lparr>displayControl := flags_bits (spec_toggle c f)\<rparr>"
  let ?w = "written w (address l) (Bytes [0xFE, 0x08 OR word_of_int (flags_bits (spec_toggle c f))])"
  from Cons.prems have c: "is_toggle c" and cs: "list_all is_toggle cs"
    by simp_all
  have step: "invoke c l w = (next_reply w, ?l, ?w)"
    using c Cons.prems(2) by (simp add: invoke_toggle toggle_bits_flags)
  have "displayControl ?l = flags_bits (spec_toggle c f)"
    by simp
  from Cons.IH [OF cs this, of ?w] show ?case
    by (simp add: step)
qed

lemma run_displayControl:
  "list_all is_toggle cs \<Longrightarrow>
     displayControl (fst (run cs l w)) = fold toggle_bits cs (displayControl l)"
proof (induction cs arbitrary: l w)
  case Nil
  then show ?case by simp
next
  case (Cons c cs)
  then show ?case by (simp add: invoke_toggle)
qed

text \<open>
  Claim C5, as amended. The claim calls the accumulation of toggles independent of
  their order; an enable and a disable of the same flag do not commute, the later one
  decides. What holds, for every list of toggles on a handle with the flags of the
  constructor and whatever the writes do: each toggle writes \<open>0xFE\<close> and \<open>0x08 | flags\<close>,
  where \<open>flags\<close> are the bits of the specification's three flags after all toggles up
  to and including this one, starting from display on, cursor off, blink off; the
  field stays within \<open>[0, 7]\<close>; a toggle made twice in a row leaves the field as the
  first left it; and two neighbouring toggles of different flags can change places
  without changing the field.
\<close>

theorem toggles_accumulate:
  assumes "list_all is_toggle cs" and "displayControl l = flags_bits initial_flags"
  shows "wire (snd (run cs l w)) =
           wire w @
           map (\<lambda>b. (address l, Bytes [0xFE, 0x08 OR word_of_int b])) (spec_sent initial_flags cs) \<and>
         displayControl (fst (run cs l w)) = flags_bits (spec_flags initial_flags cs) \<and>
         0 \<le> displayControl (fst (run cs l w)) \<and> displayControl (fst (run cs l w)) \<le> 7 \<and>
         (\<forall>c. is_toggle c \<longrightarrow>
            displayControl (fst (run (cs @ [c, c]) l w)) =
            displayControl (fst (run (cs @ [c]) l w))) \<and>
         (\<forall>c c' ds. is_toggle c \<and> is_toggle c' \<and> flag_of c \<noteq> flag_of c' \<and>
            list_all is_toggle ds \<longrightarrow>
            displayControl (fst (run (cs @ c # c' # ds) l w)) =
            displayControl (fst (run (cs @ c' # c # ds) l w)))"
proof -
  note r = run_toggles [OF assms, of w]
  have idem: "displayControl (fst (run (cs @ [c, c]) l w)) =
              displayControl (fst (run (cs @ [c]) l w))" if "is_toggle c" for c
    using that assms(1) by (simp add: run_displayControl toggle_bits_idem)
  have comm: "displayControl (fst (run (cs @ c # c' # ds) l w)) =
              displayControl (fst (run (cs @ c' # c # ds) l w))"
    if "is_toggle c" "is_toggle c'" "flag_of c \<noteq> flag_of c'" "list_all is_toggle ds"
    for c c' ds
    using that assms(1) by (simp add: run_displayControl toggle_bits_commute)
  from r idem comm flags_bits_range [of "spec_flags initial_flags cs"] show ?thesis
    by simp
qed

text \<open>
  Cursor on, blink on, cursor off on the demo handle: the bytes after \<open>0xFE\<close> are
  \<open>0x0E\<close>, \<open>0x0F\<close>, \<open>0x0D\<close>, and the field ends as 5.
\<close>

theorem toggles_accumulate_witness:
  "list_all is_toggle [Enable_cursor, Enable_cursor_blink, Disable_cursor] \<and>
   displayControl (new_lcd 0x72 16 2) = flags_bits initial_flags \<and>
   wire (snd (run [Enable_cursor, Enable_cursor_blink, Disable_cursor] (new_lcd 0x72 16 2)
                (constructed (always ack)))) =
     [(0x72, Bytes [0xFE, 0x0E]), (0x72, Bytes [0xFE, 0x0F]), (0x72, Bytes [0xFE, 0x0D])] \<and>
   displayControl
     (fst (run [Enable_cursor, Enable_cursor_blink, Disable_cursor] (new_lcd 0x72 16 2)
             (constructed (always ack)))) = 5"
proof -
  have t: "list_all is_toggle [Enable_cursor, Enable_cursor_blink, Disable_cursor]"
    by simp
  have i: "displayControl (new_lcd 0x72 16 2) = flags_bits initial_flags"
    by (simp add: flags_bits_def initial_flags_def)
  show ?thesis
    using t i toggles_accumulate [OF t i, of "constructed (always ack)"]
    by (simp add: flags_bits_def initial_flags_def)
qed

text \<open>
  The claim as stated fails: cursor on then cursor off leaves the field at 4, cursor off
  then cursor on leaves it at 6.
\<close>

theorem toggles_accumulate_counterexample:
  "displayControl
     (fst (run [Enable_cursor, Disable_cursor] (new_lcd 0x72 16 2) (constructed (always ack)))) = 4 \<and>
   displayControl
     (fst (run [Disable_cursor, Enable_cursor] (new_lcd 0x72 16 2) (constructed (always ack)))) = 6"
  by (simp add: enable_cursor_def disable_cursor_def send_commands_eq command_defs)

end
